theory Spec2Isabelle
  imports Main
begin

section \<open>The battery service's native poll, \<^verbatim>\<open>com_android_server_BatteryService.cpp\<close>\<close>

text \<open>
  The file keeps its discovery results in globals (\<^verbatim>\<open>gPaths\<close>, \<^verbatim>\<open>gChargerNames\<close>,
  \<^verbatim>\<open>gVoltageDivisor\<close>, \<^verbatim>\<open>gConstants\<close>), reads pseudo-files under
  \<^verbatim>\<open>/sys/class/power_supply\<close> and writes the fields of a Java object through JNI.
  The embedding passes all of this explicitly: a record of the globals, and a world that
  holds the file system, the log of \<^verbatim>\<open>open()\<close> calls and the Java object.
  Where C++ leaves the behaviour undefined the functions return \<open>Inl\<close>.
\<close>

subsection \<open>Integers and undefined behaviour\<close>

type_synonym jint = int

definition INT_MAX :: int where
  "INT_MAX = 2147483647"

definition INT_MIN :: int where
  "INT_MIN = - 2147483648"

definition in_int :: "int \<Rightarrow> bool" where
  "in_int v \<longleftrightarrow> INT_MIN \<le> v \<and> v \<le> INT_MAX"

datatype undefined_behaviour =
    BufferOverrun     \<comment> \<open>\<^verbatim>\<open>buf[count] = '\0'\<close> with \<^verbatim>\<open>count == size\<close>\<close>
  | AtoiRange         \<comment> \<open>\<^verbatim>\<open>atoi\<close> of a number that no \<^verbatim>\<open>int\<close> holds\<close>
  | SignedOverflow    \<comment> \<open>\<^verbatim>\<open>int\<close> arithmetic leaving the 32-bit range\<close>
  | DivisionByZero

definition and_then :: "undefined_behaviour + 'a \<Rightarrow> ('a \<Rightarrow> undefined_behaviour + 'b) \<Rightarrow> undefined_behaviour + 'b" where
  "and_then m f = (case m of Inl e \<Rightarrow> Inl e | Inr v \<Rightarrow> f v)"

text \<open>\<^verbatim>\<open>a * b\<close> on \<^verbatim>\<open>int\<close>.\<close>

definition int_mul :: "jint \<Rightarrow> jint \<Rightarrow> undefined_behaviour + jint" where
  "int_mul a b = (if in_int (a * b) then Inr (a * b) else Inl SignedOverflow)"

text \<open>\<^verbatim>\<open>a / b\<close> on \<^verbatim>\<open>int\<close>: the quotient is truncated towards zero.\<close>

definition int_div :: "jint \<Rightarrow> jint \<Rightarrow> undefined_behaviour + jint" where
  "int_div a b =
     (if b = 0 then Inl DivisionByZero
      else if a = INT_MIN \<and> b = - 1 then Inl SignedOverflow
      else Inr (sgn a * sgn b * (\<bar>a\<bar> div \<bar>b\<bar>)))"

subsection \<open>C strings and \<^verbatim>\<open>atoi\<close>\<close>

definition NUL :: char where
  "NUL = CHR 0x00"

definition NEWLINE :: char where
  "NEWLINE = CHR 0x0A"

text \<open>The string a \<^verbatim>\<open>char\<close> buffer holds: its bytes up to the first NUL.\<close>

definition cstr :: "string \<Rightarrow> string" where
  "cstr buf = takeWhile (\<lambda>c. c \<noteq> NUL) buf"

text \<open>\<^verbatim>\<open>s[i]\<close> for \<open>i\<close> up to the terminator's place.\<close>

definition byte_at :: "string \<Rightarrow> nat \<Rightarrow> char" where
  "byte_at s i = (if i < length s then s ! i else NUL)"

definition isspace :: "char \<Rightarrow> bool" where
  "isspace c \<longleftrightarrow> c = CHR '' '' \<or> (9 \<le> (of_char c :: nat) \<and> (of_char c :: nat) \<le> 13)"

definition isdigit :: "char \<Rightarrow> bool" where
  "isdigit c \<longleftrightarrow> 48 \<le> (of_char c :: nat) \<and> (of_char c :: nat) \<le> 57"

fun digits_value :: "int \<Rightarrow> string \<Rightarrow> int" where
  "digits_value acc [] = acc"
| "digits_value acc (c # cs) =
     (if isdigit c then digits_value (acc * 10 + (of_char c - 48)) cs else acc)"

text \<open>
  The C library's \<^verbatim>\<open>atoi\<close>: leading white space, an optional sign, then decimal digits
  up to the first other character; no digits give 0. A value outside \<^verbatim>\<open>int\<close> is undefined.
\<close>

definition atoi :: "string \<Rightarrow> undefined_behaviour + jint" where
  "atoi s =
     (let t = dropWhile isspace s;
          v = (case t of
                 [] \<Rightarrow> 0
               | c # cs \<Rightarrow>
                   if c = CHR ''-'' then - digits_value 0 cs
                   else if c = CHR ''+'' then digits_value 0 cs
                   else digits_value 0 t)
      in if in_int v then Inr v else Inl AtoiRange)"

subsection \<open>The Java object and the constants of \<^verbatim>\<open>BatteryManager\<close>\<close>

record BatteryService =
  mAcOnline :: bool
  mUsbOnline :: bool
  mWirelessOnline :: bool
  mBatteryStatus :: jint
  mBatteryHealth :: jint
  mBatteryPresent :: bool
  mBatteryLevel :: jint
  mBatteryVoltage :: jint
  mBatteryTemperature :: jint
  mBatteryTechnology :: "string option"

text \<open>The members of \<^verbatim>\<open>gFieldIds\<close>, by the type of the field they name.\<close>

datatype boolean_field = AcOnlineID | UsbOnlineID | WirelessOnlineID | BatteryPresentID

datatype int_field =
  BatteryStatusID | BatteryHealthID | BatteryLevelID | BatteryVoltageID | BatteryTemperatureID

fun SetBooleanField :: "boolean_field \<Rightarrow> bool \<Rightarrow> BatteryService \<Rightarrow> BatteryService" where
  "SetBooleanField AcOnlineID v obj = obj\<lparr>mAcOnline := v\<rparr>"
| "SetBooleanField UsbOnlineID v obj = obj\<lparr>mUsbOnline := v\<rparr>"
| "SetBooleanField WirelessOnlineID v obj = obj\<lparr>mWirelessOnline := v\<rparr>"
| "SetBooleanField BatteryPresentID v obj = obj\<lparr>mBatteryPresent := v\<rparr>"

fun SetIntField :: "int_field \<Rightarrow> jint \<Rightarrow> BatteryService \<Rightarrow> BatteryService" where
  "SetIntField BatteryStatusID v obj = obj\<lparr>mBatteryStatus := v\<rparr>"
| "SetIntField BatteryHealthID v obj = obj\<lparr>mBatteryHealth := v\<rparr>"
| "SetIntField BatteryLevelID v obj = obj\<lparr>mBatteryLevel := v\<rparr>"
| "SetIntField BatteryVoltageID v obj = obj\<lparr>mBatteryVoltage := v\<rparr>"
| "SetIntField BatteryTemperatureID v obj = obj\<lparr>mBatteryTemperature := v\<rparr>"

text \<open>
  \<^verbatim>\<open>gConstants\<close>: the values are static fields of the Java class \<^verbatim>\<open>BatteryManager\<close>,
  read at registration; they are a parameter here.
\<close>

record BatteryManagerConstants =
  statusUnknown :: jint
  statusCharging :: jint
  statusDischarging :: jint
  statusNotCharging :: jint
  statusFull :: jint
  healthUnknown :: jint
  healthGood :: jint
  healthOverheat :: jint
  healthDead :: jint
  healthOverVoltage :: jint
  healthUnspecifiedFailure :: jint
  healthCold :: jint

subsection \<open>The globals\<close>

type_synonym String8 = string

record PowerSupplyPaths =
  batteryStatusPath :: String8
  batteryHealthPath :: String8
  batteryPresentPath :: String8
  batteryCapacityPath :: String8
  batteryChargeNowPath :: String8
  batteryChargeFullPath :: String8
  batteryVoltagePath :: String8
  batteryTemperaturePath :: String8
  batteryTechnologyPath :: String8

record globals =
  gConstants :: BatteryManagerConstants
  gPaths :: PowerSupplyPaths
  gChargerNames :: "String8 list"
  gVoltageDivisor :: int

datatype PowerSupplyType =
    ANDROID_POWER_SUPPLY_TYPE_UNKNOWN
  | ANDROID_POWER_SUPPLY_TYPE_AC
  | ANDROID_POWER_SUPPLY_TYPE_USB
  | ANDROID_POWER_SUPPLY_TYPE_WIRELESS
  | ANDROID_POWER_SUPPLY_TYPE_BATTERY

definition POWER_SUPPLY_PATH :: string where
  "POWER_SUPPLY_PATH = ''/sys/class/power_supply''"

subsection \<open>The world\<close>

text \<open>
  A path that \<^verbatim>\<open>open\<close> and \<^verbatim>\<open>access\<close> accept leads to a node: \<^verbatim>\<open>read\<close> delivers its
  bytes, or fails with -1.
\<close>

datatype node = File string | ReadError

record world =
  files :: "String8 \<Rightarrow> node option"
  entries :: "string list option"   \<comment> \<open>what \<^verbatim>\<open>readdir\<close> lists under \<^verbatim>\<open>POWER_SUPPLY_PATH\<close>; \<open>None\<close>: \<^verbatim>\<open>opendir\<close> fails\<close>
  opens :: "String8 list"            \<comment> \<open>the paths given to \<^verbatim>\<open>open\<close>, oldest first\<close>
  thiz :: BatteryService

definition access :: "world \<Rightarrow> String8 \<Rightarrow> bool" where
  "access w path \<longleftrightarrow> files w path \<noteq> None"

subsection \<open>The classifiers\<close>

definition getBatteryStatus :: "BatteryManagerConstants \<Rightarrow> string \<Rightarrow> jint" where
  "getBatteryStatus k status =
     (let c = byte_at status 0 in
      if c = CHR ''C'' then statusCharging k
      else if c = CHR ''D'' then statusDischarging k
      else if c = CHR ''F'' then statusFull k
      else if c = CHR ''N'' then statusNotCharging k
      else if c = CHR ''U'' then statusUnknown k
      else statusUnknown k)"

definition getBatteryHealth :: "BatteryManagerConstants \<Rightarrow> string \<Rightarrow> jint" where
  "getBatteryHealth k status =
     (let c = byte_at status 0 in
      if c = CHR ''C'' then healthCold k
      else if c = CHR ''D'' then healthDead k
      else if c = CHR ''G'' then healthGood k
      else if c = CHR ''O'' then
        (if status = ''Overheat'' then healthOverheat k
         else if status = ''Over voltage'' then healthOverVoltage k
         else healthUnknown k)
      else if c = CHR ''U'' then
        (if status = ''Unspecified failure'' then healthUnspecifiedFailure k
         else if status = ''Unknown'' then healthUnknown k
         else healthUnknown k)   \<comment> \<open>falls through to the default\<close>
      else healthUnknown k)"

subsection \<open>Reading a file\<close>

text \<open>The loop \<^verbatim>\<open>while (count > 0 && buf[count-1] == '\n') count--;\<close>\<close>

fun trim_count :: "string \<Rightarrow> nat \<Rightarrow> nat" where
  "trim_count buf 0 = 0"
| "trim_count buf (Suc n) = (if buf ! n = NEWLINE then trim_count buf n else Suc n)"

text \<open>
  \<^verbatim>\<open>readFromFile\<close> returns the count and what the buffer holds before its terminator
  (nothing when no byte was stored). \<^verbatim>\<open>read\<close> fills up to \<open>sz\<close> bytes; when all
  \<open>sz\<close> bytes stay after trimming, the terminator is written past the array.
\<close>

definition readFromFile :: "String8 \<Rightarrow> nat \<Rightarrow> world \<Rightarrow> undefined_behaviour + ((int \<times> string) \<times> world)" where
  "readFromFile path sz w =
     (if path = [] then Inr ((- 1, []), w)
      else
        let w' = w\<lparr>opens := opens w @ [path]\<rparr> in
        case files w path of
          None \<Rightarrow> Inr ((- 1, []), w')
        | Some ReadError \<Rightarrow> Inr ((- 1, []), w')
        | Some (File content) \<Rightarrow>
            let buf = take sz content;
                count = length buf
            in if count > 0 then
                 let count' = trim_count buf count in
                 if count' < sz then Inr ((int count', take count' buf), w')
                 else Inl BufferOverrun
               else Inr ((0, []), w'))"

definition setBooleanField :: "String8 \<Rightarrow> boolean_field \<Rightarrow> world \<Rightarrow> undefined_behaviour + world" where
  "setBooleanField path fieldID w =
     and_then (readFromFile path 16 w) (\<lambda>((count, buf), w1).
       let value = (if count > 0 \<and> byte_at buf 0 \<noteq> CHR ''0'' then True else False)
       in Inr (w1\<lparr>thiz := SetBooleanField fieldID value (thiz w1)\<rparr>))"

definition setIntField :: "String8 \<Rightarrow> int_field \<Rightarrow> world \<Rightarrow> undefined_behaviour + world" where
  "setIntField path fieldID w =
     and_then (readFromFile path 128 w) (\<lambda>((count, buf), w1).
     and_then (if count > 0 then atoi (cstr buf) else Inr 0) (\<lambda>value.
       Inr (w1\<lparr>thiz := SetIntField fieldID value (thiz w1)\<rparr>)))"

definition setVoltageField :: "globals \<Rightarrow> String8 \<Rightarrow> int_field \<Rightarrow> world \<Rightarrow> undefined_behaviour + world" where
  "setVoltageField g path fieldID w =
     and_then (readFromFile path 128 w) (\<lambda>((count, buf), w1).
     and_then (if count > 0
               then and_then (atoi (cstr buf)) (\<lambda>value. int_div value (gVoltageDivisor g))
               else Inr 0) (\<lambda>value.
       Inr (w1\<lparr>thiz := SetIntField fieldID value (thiz w1)\<rparr>)))"

definition setChargeLevel :: "globals \<Rightarrow> int_field \<Rightarrow> world \<Rightarrow> undefined_behaviour + world" where
  "setChargeLevel g fieldID w =
     and_then (readFromFile (batteryChargeNowPath (gPaths g)) 128 w) (\<lambda>((count1, buf1), w1).
       if count1 > 0 then
         and_then (readFromFile (batteryChargeFullPath (gPaths g)) 128 w1) (\<lambda>((count2, buf2), w2).
           if count2 > 0 then
             and_then (atoi (cstr buf1)) (\<lambda>now.
             and_then (int_mul now 100) (\<lambda>product.
             and_then (atoi (cstr buf2)) (\<lambda>full.
             and_then (int_div product full) (\<lambda>value.
               Inr (w2\<lparr>thiz := SetIntField fieldID value (thiz w2)\<rparr>)))))
           else Inr w2)
       else Inr w1)"

definition readPowerSupplyType :: "String8 \<Rightarrow> world \<Rightarrow> undefined_behaviour + (PowerSupplyType \<times> world)" where
  "readPowerSupplyType path w =
     and_then (readFromFile path 128 w) (\<lambda>((len, buf0), w1).
       if len \<le> 0 then Inr (ANDROID_POWER_SUPPLY_TYPE_UNKNOWN, w1)
       else
         let buf = (if buf0 ! (nat len - 1) = NEWLINE then buf0[nat len - 1 := NUL] else buf0);
             s = cstr buf
         in if s = ''Battery'' then Inr (ANDROID_POWER_SUPPLY_TYPE_BATTERY, w1)
            else if s = ''Mains'' \<or> s = ''USB_DCP'' \<or> s = ''USB_CDP'' \<or> s = ''USB_ACA''
              then Inr (ANDROID_POWER_SUPPLY_TYPE_AC, w1)
            else if s = ''USB'' then Inr (ANDROID_POWER_SUPPLY_TYPE_USB, w1)
            else if s = ''Wireless'' then Inr (ANDROID_POWER_SUPPLY_TYPE_WIRELESS, w1)
            else Inr (ANDROID_POWER_SUPPLY_TYPE_UNKNOWN, w1))"

subsection \<open>The poll\<close>

text \<open>\<^verbatim>\<open>path.appendFormat("%s/%s/<leaf>", POWER_SUPPLY_PATH, name)\<close> on a cleared path.\<close>

definition power_supply_file :: "string \<Rightarrow> string \<Rightarrow> String8" where
  "power_supply_file name leaf = POWER_SUPPLY_PATH @ ''/'' @ name @ ''/'' @ leaf"

text \<open>
  The loop over \<^verbatim>\<open>gChargerNames\<close>, from index \<open>i\<close> on; it returns the index it stops at
  and the three flags.
\<close>

fun charger_loop ::
  "String8 list \<Rightarrow> nat \<Rightarrow> bool \<times> bool \<times> bool \<Rightarrow> world
     \<Rightarrow> undefined_behaviour + ((nat \<times> bool \<times> bool \<times> bool) \<times> world)" where
  "charger_loop [] i flags w = Inr ((i, flags), w)"
| "charger_loop (name # rest) i (acOnline, usbOnline, wirelessOnline) w =
     (case readFromFile (power_supply_file name ''online'') 128 w of
        Inl e \<Rightarrow> Inl e
      | Inr ((count, buf), w1) \<Rightarrow>
          if count > 0 \<and> byte_at buf 0 \<noteq> CHR ''0'' then
            (case readPowerSupplyType (power_supply_file name ''type'') w1 of
               Inl e \<Rightarrow> Inl e
             | Inr (t, w2) \<Rightarrow>
                 charger_loop rest (Suc i)
                   (case t of
                      ANDROID_POWER_SUPPLY_TYPE_AC \<Rightarrow> (True, usbOnline, wirelessOnline)
                    | ANDROID_POWER_SUPPLY_TYPE_USB \<Rightarrow> (acOnline, True, wirelessOnline)
                    | ANDROID_POWER_SUPPLY_TYPE_WIRELESS \<Rightarrow> (acOnline, usbOnline, True)
                    | _ \<Rightarrow> (acOnline, usbOnline, wirelessOnline))
                   w2)
          else charger_loop rest (Suc i) (acOnline, usbOnline, wirelessOnline) w1)"

definition android_server_BatteryService_update :: "globals \<Rightarrow> world \<Rightarrow> undefined_behaviour + world" where
  "android_server_BatteryService_update g w =
     and_then (setBooleanField (batteryPresentPath (gPaths g)) BatteryPresentID w) (\<lambda>w1.
     and_then
       (if batteryPresentPath (gPaths g) = [] then
          Inr (w1\<lparr>thiz := SetIntField BatteryLevelID 100 (thiz w1)\<rparr>)
        else if batteryCapacityPath (gPaths g) = [] then setChargeLevel g BatteryLevelID w1
        else setIntField (batteryCapacityPath (gPaths g)) BatteryLevelID w1) (\<lambda>w2.
     and_then (setVoltageField g (batteryVoltagePath (gPaths g)) BatteryVoltageID w2) (\<lambda>w3.
     and_then (setIntField (batteryTemperaturePath (gPaths g)) BatteryTemperatureID w3) (\<lambda>w4.
     and_then (readFromFile (batteryStatusPath (gPaths g)) 128 w4) (\<lambda>((count5, buf5), w5).
     let w6 = (if count5 > 0
               then w5\<lparr>thiz := SetIntField BatteryStatusID
                                 (getBatteryStatus (gConstants g) (cstr buf5)) (thiz w5)\<rparr>
               else w5\<lparr>thiz := SetIntField BatteryStatusID
                                 (statusUnknown (gConstants g)) (thiz w5)\<rparr>) in
     and_then (readFromFile (batteryHealthPath (gPaths g)) 128 w6) (\<lambda>((count7, buf7), w7).
     let w8 = (if count7 > 0
               then w7\<lparr>thiz := SetIntField BatteryHealthID
                                 (getBatteryHealth (gConstants g) (cstr buf7)) (thiz w7)\<rparr>
               else w7) in
     and_then (readFromFile (batteryTechnologyPath (gPaths g)) 128 w8) (\<lambda>((count9, buf9), w9).
     let w10 = (if count9 > 0
                then w9\<lparr>thiz := (thiz w9)\<lparr>mBatteryTechnology := Some (cstr buf9)\<rparr>\<rparr>
                else w9) in
     and_then (charger_loop (gChargerNames g) 0 (False, False, False) w10)
       (\<lambda>((i, acOnline0, usbOnline, wirelessOnline), w11).
     let acOnline = (if i = 0 then True else acOnline0) in
     Inr (w11\<lparr>thiz := SetBooleanField WirelessOnlineID wirelessOnline
                        (SetBooleanField UsbOnlineID usbOnline
                          (SetBooleanField AcOnlineID acOnline (thiz w11)))\<rparr>)))))))))"

subsection \<open>Discovery\<close>

text \<open>The globals as the program starts: empty paths, no charger, divisor 1.\<close>

definition initial_globals :: "BatteryManagerConstants \<Rightarrow> globals" where
  "initial_globals k =
     \<lparr>gConstants = k,
      gPaths = \<lparr>batteryStatusPath = [], batteryHealthPath = [], batteryPresentPath = [],
                batteryCapacityPath = [], batteryChargeNowPath = [], batteryChargeFullPath = [],
                batteryVoltagePath = [], batteryTemperaturePath = [], batteryTechnologyPath = []\<rparr>,
      gChargerNames = [],
      gVoltageDivisor = 1\<rparr>"

text \<open>The case \<^verbatim>\<open>ANDROID_POWER_SUPPLY_TYPE_BATTERY\<close> of the scan, for the directory \<open>name\<close>.\<close>

definition register_battery :: "string \<Rightarrow> world \<Rightarrow> globals \<Rightarrow> globals" where
  "register_battery name w g0 =
     (let g1 = (if access w (power_supply_file name ''status'')
                then g0\<lparr>gPaths := (gPaths g0)\<lparr>batteryStatusPath := power_supply_file name ''status''\<rparr>\<rparr>
                else g0);
          g2 = (if access w (power_supply_file name ''health'')
                then g1\<lparr>gPaths := (gPaths g1)\<lparr>batteryHealthPath := power_supply_file name ''health''\<rparr>\<rparr>
                else g1);
          g3 = (if access w (power_supply_file name ''present'')
                then g2\<lparr>gPaths := (gPaths g2)\<lparr>batteryPresentPath := power_supply_file name ''present''\<rparr>\<rparr>
                else g2);
          g4 = (if access w (power_supply_file name ''capacity'')
                then g3\<lparr>gPaths := (gPaths g3)\<lparr>batteryCapacityPath := power_supply_file name ''capacity''\<rparr>\<rparr>
                else if access w (power_supply_file name ''charge_now'') then
                  (let g = g3\<lparr>gPaths := (gPaths g3)\<lparr>batteryChargeNowPath := power_supply_file name ''charge_now''\<rparr>\<rparr>
                   in if access w (power_supply_file name ''charge_full'')
                      then g\<lparr>gPaths := (gPaths g)\<lparr>batteryChargeFullPath := power_supply_file name ''charge_full''\<rparr>\<rparr>
                      else g)
                else if access w (power_supply_file name ''energy_now'') then
                  (let g = g3\<lparr>gPaths := (gPaths g3)\<lparr>batteryChargeNowPath := power_supply_file name ''energy_now''\<rparr>\<rparr>
                   in if access w (power_supply_file name ''energy_full'')
                      then g\<lparr>gPaths := (gPaths g)\<lparr>batteryChargeFullPath := power_supply_file name ''energy_full''\<rparr>\<rparr>
                      else g)
                else g3);
          g5 = (if access w (power_supply_file name ''voltage_now'')
                then g4\<lparr>gPaths := (gPaths g4)\<lparr>batteryVoltagePath := power_supply_file name ''voltage_now''\<rparr>,
                        gVoltageDivisor := 1000\<rparr>
                else if access w (power_supply_file name ''batt_vol'')
                then g4\<lparr>gPaths := (gPaths g4)\<lparr>batteryVoltagePath := power_supply_file name ''batt_vol''\<rparr>\<rparr>
                else g4);
          g6 = (if access w (power_supply_file name ''temp'')
                then g5\<lparr>gPaths := (gPaths g5)\<lparr>batteryTemperaturePath := power_supply_file name ''temp''\<rparr>\<rparr>
                else if access w (power_supply_file name ''batt_temp'')
                then g5\<lparr>gPaths := (gPaths g5)\<lparr>batteryTemperaturePath := power_supply_file name ''batt_temp''\<rparr>\<rparr>
                else g5)
      in if access w (power_supply_file name ''technology'')
         then g6\<lparr>gPaths := (gPaths g6)\<lparr>batteryTechnologyPath := power_supply_file name ''technology''\<rparr>\<rparr>
         else g6)"

text \<open>The body of the \<^verbatim>\<open>readdir\<close> loop for the entry \<open>name\<close>.\<close>

definition register_entry :: "string \<Rightarrow> globals \<times> world \<Rightarrow> undefined_behaviour + (globals \<times> world)" where
  "register_entry name gw =
     (case gw of (g, w) \<Rightarrow>
        if byte_at name 0 = CHR ''.'' \<and>
           (byte_at name 1 = NUL \<or> (byte_at name 1 = CHR ''.'' \<and> byte_at name 2 = NUL))
        then Inr (g, w)
        else
          and_then (readPowerSupplyType (power_supply_file name ''type'') w) (\<lambda>(t, w1).
            case t of
              ANDROID_POWER_SUPPLY_TYPE_AC \<Rightarrow>
                Inr (if access w1 (power_supply_file name ''online'')
                     then g\<lparr>gChargerNames := gChargerNames g @ [name]\<rparr> else g, w1)
            | ANDROID_POWER_SUPPLY_TYPE_USB \<Rightarrow>
                Inr (if access w1 (power_supply_file name ''online'')
                     then g\<lparr>gChargerNames := gChargerNames g @ [name]\<rparr> else g, w1)
            | ANDROID_POWER_SUPPLY_TYPE_WIRELESS \<Rightarrow>
                Inr (if access w1 (power_supply_file name ''online'')
                     then g\<lparr>gChargerNames := gChargerNames g @ [name]\<rparr> else g, w1)
            | ANDROID_POWER_SUPPLY_TYPE_BATTERY \<Rightarrow> Inr (register_battery name w1 g, w1)
            | ANDROID_POWER_SUPPLY_TYPE_UNKNOWN \<Rightarrow> Inr (g, w1)))"

fun register_loop :: "string list \<Rightarrow> globals \<times> world \<Rightarrow> undefined_behaviour + (globals \<times> world)" where
  "register_loop [] gw = Inr gw"
| "register_loop (name # rest) gw =
     (case register_entry name gw of
        Inl e \<Rightarrow> Inl e
      | Inr gw' \<Rightarrow> register_loop rest gw')"

text \<open>
  The discovery of \<^verbatim>\<open>register_android_server_BatteryService\<close>: the scan of
  \<^verbatim>\<open>POWER_SUPPLY_PATH\<close>. What follows it in the source binds the Java fields and reads
  \<^verbatim>\<open>gConstants\<close> through JNI, and touches neither the paths, the charger names nor the divisor.
\<close>

definition register_android_server_BatteryService ::
  "globals \<Rightarrow> world \<Rightarrow> undefined_behaviour + (globals \<times> world)" where
  "register_android_server_BatteryService g w =
     (case entries w of
        None \<Rightarrow> Inr (g, w)
      | Some names \<Rightarrow> register_loop names (g, w))"

subsection \<open>Observing a world\<close>

text \<open>What \<^verbatim>\<open>readFromFile\<close> returns in a world: the count and the buffer.\<close>

definition read_result :: "world \<Rightarrow> String8 \<Rightarrow> nat \<Rightarrow> undefined_behaviour + (int \<times> string)" where
  "read_result w path sz = map_sum id fst (readFromFile path sz w)"

text \<open>The read fails: \<^verbatim>\<open>readFromFile\<close> returns no positive count.\<close>

definition read_fails :: "world \<Rightarrow> String8 \<Rightarrow> nat \<Rightarrow> bool" where
  "read_fails w path sz = (case read_result w path sz of Inr (count, buf) \<Rightarrow> count \<le> 0 | Inl e \<Rightarrow> False)"

text \<open>The \<^verbatim>\<open>online\<close> file of a supply reads as true: a first byte other than \<open>0\<close>.\<close>

definition supply_online :: "world \<Rightarrow> String8 \<Rightarrow> bool" where
  "supply_online w name =
     (case read_result w (power_supply_file name ''online'') 128 of
        Inr (count, buf) \<Rightarrow> count > 0 \<and> byte_at buf 0 \<noteq> CHR ''0''
      | Inl e \<Rightarrow> False)"

text \<open>How the \<^verbatim>\<open>type\<close> file of a supply classifies.\<close>

definition supply_type :: "world \<Rightarrow> String8 \<Rightarrow> PowerSupplyType" where
  "supply_type w name =
     (case readPowerSupplyType (power_supply_file name ''type'') w of
        Inr (t, w') \<Rightarrow> t
      | Inl e \<Rightarrow> ANDROID_POWER_SUPPLY_TYPE_UNKNOWN)"

subsection \<open>Example worlds\<close>

text \<open>The values of the constants in \<^verbatim>\<open>android.os.BatteryManager\<close>.\<close>

definition android_constants :: BatteryManagerConstants where
  "android_constants =
     \<lparr>statusUnknown = 1, statusCharging = 2, statusDischarging = 3, statusNotCharging = 4,
      statusFull = 5, healthUnknown = 1, healthGood = 2, healthOverheat = 3, healthDead = 4,
      healthOverVoltage = 5, healthUnspecifiedFailure = 6, healthCold = 7\<rparr>"

text \<open>An object that an earlier poll has filled: level 42, health good.\<close>

definition earlier_object :: BatteryService where
  "earlier_object =
     \<lparr>mAcOnline = False, mUsbOnline = False, mWirelessOnline = False, mBatteryStatus = 3,
      mBatteryHealth = 2, mBatteryPresent = True, mBatteryLevel = 42, mBatteryVoltage = 3600,
      mBatteryTemperature = 250, mBatteryTechnology = Some ''Li-ion''\<rparr>"

text \<open>A tablet: a mains and a USB charger, and a battery with the usual files.\<close>

definition tablet_world :: world where
  "tablet_world =
     \<lparr>files = map_of
        [(''/sys/class/power_supply/ac/type'', File ''Mains\<newline>''),
         (''/sys/class/power_supply/ac/online'', File ''1\<newline>''),
         (''/sys/class/power_supply/usb/type'', File ''USB\<newline>''),
         (''/sys/class/power_supply/usb/online'', File ''0\<newline>''),
         (''/sys/class/power_supply/battery/type'', File ''Battery\<newline>''),
         (''/sys/class/power_supply/battery/status'', File ''Charging\<newline>''),
         (''/sys/class/power_supply/battery/health'', File ''Good\<newline>''),
         (''/sys/class/power_supply/battery/present'', File ''1\<newline>''),
         (''/sys/class/power_supply/battery/capacity'', File ''57\<newline>''),
         (''/sys/class/power_supply/battery/voltage_now'', File ''3700000\<newline>''),
         (''/sys/class/power_supply/battery/temp'', File ''300\<newline>''),
         (''/sys/class/power_supply/battery/technology'', File ''Li-ion\<newline>'')],
      entries = Some [''.'', ''..'', ''ac'', ''usb'', ''battery''],
      opens = [],
      thiz = earlier_object\<rparr>"

text \<open>The tablet with its mains charger unplugged.\<close>

definition unplugged_tablet_world :: world where
  "unplugged_tablet_world =
     tablet_world\<lparr>files := (files tablet_world)
        (''/sys/class/power_supply/ac/online'' \<mapsto> File ''0\<newline>'')\<rparr>"

text \<open>
  A battery directory without a \<^verbatim>\<open>present\<close> file: the status file cannot be read, the
  health file is empty, and there is no charger.
\<close>

definition bare_world :: world where
  "bare_world =
     \<lparr>files = map_of
        [(''/sys/class/power_supply/battery/type'', File ''Battery\<newline>''),
         (''/sys/class/power_supply/battery/status'', ReadError),
         (''/sys/class/power_supply/battery/health'', File []),
         (''/sys/class/power_supply/battery/capacity'', File ''57\<newline>'')],
      entries = Some [''.'', ''..'', ''battery''],
      opens = [],
      thiz = earlier_object\<rparr>"

text \<open>An older phone: \<^verbatim>\<open>batt_vol\<close> in millivolts and the charge pair.\<close>

definition legacy_world :: world where
  "legacy_world =
     \<lparr>files = map_of
        [(''/sys/class/power_supply/battery/type'', File ''Battery\<newline>''),
         (''/sys/class/power_supply/battery/present'', File ''1\<newline>''),
         (''/sys/class/power_supply/battery/charge_now'', File ''50\<newline>''),
         (''/sys/class/power_supply/battery/charge_full'', File ''200\<newline>''),
         (''/sys/class/power_supply/battery/batt_vol'', File ''3700\<newline>'')],
      entries = Some [''.'', ''..'', ''battery''],
      opens = [],
      thiz = earlier_object\<rparr>"

text \<open>The same phone while \<^verbatim>\<open>charge_full\<close> cannot be opened, and while it reads 0.\<close>

definition legacy_world_without_full :: world where
  "legacy_world_without_full =
     legacy_world\<lparr>files := (files legacy_world)(''/sys/class/power_supply/battery/charge_full'' := None)\<rparr>"

definition legacy_world_zero_full :: world where
  "legacy_world_zero_full =
     legacy_world\<lparr>files := (files legacy_world)
        (''/sys/class/power_supply/battery/charge_full'' \<mapsto> File ''0\<newline>'')\<rparr>"


text \<open>A laptop battery that reports its energy in microwatt-hours: 30 Wh of 60 Wh.\<close>

definition laptop_world :: world where
  "laptop_world =
     \<lparr>files = map_of
        [(''/sys/class/power_supply/BAT0/type'', File ''Battery\<newline>''),
         (''/sys/class/power_supply/BAT0/present'', File ''1\<newline>''),
         (''/sys/class/power_supply/BAT0/energy_now'', File ''30000000\<newline>''),
         (''/sys/class/power_supply/BAT0/energy_full'', File ''60000000\<newline>'')],
      entries = Some [''.'', ''..'', ''BAT0''],
      opens = [],
      thiz = earlier_object\<rparr>"

text \<open>
  Two batteries: the first reports \<^verbatim>\<open>voltage_now\<close> in microvolts, the second only
  \<^verbatim>\<open>batt_vol\<close> in millivolts.
\<close>

definition two_battery_world :: world where
  "two_battery_world =
     \<lparr>files = map_of
        [(''/sys/class/power_supply/BAT0/type'', File ''Battery\<newline>''),
         (''/sys/class/power_supply/BAT0/voltage_now'', File ''3700000\<newline>''),
         (''/sys/class/power_supply/BAT1/type'', File ''Battery\<newline>''),
         (''/sys/class/power_supply/BAT1/batt_vol'', File ''3700\<newline>'')],
      entries = Some [''.'', ''..'', ''BAT0'', ''BAT1''],
      opens = [],
      thiz = earlier_object\<rparr>"

text \<open>The globals that discovery leaves in a world, started from the initial ones.\<close>

definition discovered :: "world \<Rightarrow> globals" where
  "discovered w =
     (case register_android_server_BatteryService (initial_globals android_constants) w of
        Inr (g, w') \<Rightarrow> g
      | Inl e \<Rightarrow> initial_globals android_constants)"

text \<open>A desktop computer: the directory lists no power supply at all.\<close>

definition desktop_world :: world where
  "desktop_world = \<lparr>files = Map.empty, entries = Some [''.'', ''..''], opens = [], thiz = earlier_object\<rparr>"


text \<open>What the poll leaves of these worlds, with the globals that discovery finds in them.\<close>

definition bare_world_polled :: world where
  "bare_world_polled =
     bare_world
       \<lparr>opens := [''/sys/class/power_supply/battery/status'',
                  ''/sys/class/power_supply/battery/health''],
        thiz := \<lparr>mAcOnline = True, mUsbOnline = False, mWirelessOnline = False,
                  mBatteryStatus = 1, mBatteryHealth = 2, mBatteryPresent = False,
                  mBatteryLevel = 100, mBatteryVoltage = 0, mBatteryTemperature = 0,
                  mBatteryTechnology = Some ''Li-ion''\<rparr>\<rparr>"

definition tablet_world_polled :: world where
  "tablet_world_polled =
     tablet_world
       \<lparr>opens := [''/sys/class/power_supply/battery/present'',
                  ''/sys/class/power_supply/battery/capacity'',
                  ''/sys/class/power_supply/battery/voltage_now'',
                  ''/sys/class/power_supply/battery/temp'',
                  ''/sys/class/power_supply/battery/status'',
                  ''/sys/class/power_supply/battery/health'',
                  ''/sys/class/power_supply/battery/technology'',
                  ''/sys/class/power_supply/ac/online'',
                  ''/sys/class/power_supply/ac/type'',
                  ''/sys/class/power_supply/usb/online''],
        thiz := \<lparr>mAcOnline = True, mUsbOnline = False, mWirelessOnline = False,
                  mBatteryStatus = 2, mBatteryHealth = 2, mBatteryPresent = True,
                  mBatteryLevel = 57, mBatteryVoltage = 3700, mBatteryTemperature = 300,
                  mBatteryTechnology = Some ''Li-ion''\<rparr>\<rparr>"

definition desktop_world_polled :: world where
  "desktop_world_polled =
     desktop_world
       \<lparr>opens := [],
        thiz := \<lparr>mAcOnline = True, mUsbOnline = False, mWirelessOnline = False,
                  mBatteryStatus = 1, mBatteryHealth = 2, mBatteryPresent = False,
                  mBatteryLevel = 100, mBatteryVoltage = 0, mBatteryTemperature = 0,
                  mBatteryTechnology = Some ''Li-ion''\<rparr>\<rparr>"

definition unplugged_tablet_world_polled :: world where
  "unplugged_tablet_world_polled =
     unplugged_tablet_world
       \<lparr>opens := [''/sys/class/power_supply/battery/present'',
                  ''/sys/class/power_supply/battery/capacity'',
                  ''/sys/class/power_supply/battery/voltage_now'',
                  ''/sys/class/power_supply/battery/temp'',
                  ''/sys/class/power_supply/battery/status'',
                  ''/sys/class/power_supply/battery/health'',
                  ''/sys/class/power_supply/battery/technology'',
                  ''/sys/class/power_supply/ac/online'',
                  ''/sys/class/power_supply/usb/online''],
        thiz := \<lparr>mAcOnline = False, mUsbOnline = False, mWirelessOnline = False,
                  mBatteryStatus = 2, mBatteryHealth = 2, mBatteryPresent = True,
                  mBatteryLevel = 57, mBatteryVoltage = 3700, mBatteryTemperature = 300,
                  mBatteryTechnology = Some ''Li-ion''\<rparr>\<rparr>"

definition legacy_world_polled :: world where
  "legacy_world_polled =
     legacy_world
       \<lparr>opens := [''/sys/class/power_supply/battery/present'',
                  ''/sys/class/power_supply/battery/charge_now'',
                  ''/sys/class/power_supply/battery/charge_full'',
                  ''/sys/class/power_supply/battery/batt_vol''],
        thiz := \<lparr>mAcOnline = True, mUsbOnline = False, mWirelessOnline = False,
                  mBatteryStatus = 1, mBatteryHealth = 2, mBatteryPresent = True,
                  mBatteryLevel = 25, mBatteryVoltage = 3700, mBatteryTemperature = 0,
                  mBatteryTechnology = Some ''Li-ion''\<rparr>\<rparr>"

definition legacy_world_without_full_polled :: world where
  "legacy_world_without_full_polled =
     legacy_world_without_full
       \<lparr>opens := [''/sys/class/power_supply/battery/present'',
                  ''/sys/class/power_supply/battery/charge_now'',
                  ''/sys/class/power_supply/battery/charge_full'',
                  ''/sys/class/power_supply/battery/batt_vol''],
        thiz := \<lparr>mAcOnline = True, mUsbOnline = False, mWirelessOnline = False,
                  mBatteryStatus = 1, mBatteryHealth = 2, mBatteryPresent = True,
                  mBatteryLevel = 42, mBatteryVoltage = 3700, mBatteryTemperature = 0,
                  mBatteryTechnology = Some ''Li-ion''\<rparr>\<rparr>"

definition two_battery_world_polled :: world where
  "two_battery_world_polled =
     two_battery_world
       \<lparr>opens := [''/sys/class/power_supply/BAT1/batt_vol''],
        thiz := \<lparr>mAcOnline = True, mUsbOnline = False, mWirelessOnline = False,
                  mBatteryStatus = 1, mBatteryHealth = 2, mBatteryPresent = False,
                  mBatteryLevel = 100, mBatteryVoltage = 3, mBatteryTemperature = 0,
                  mBatteryTechnology = Some ''Li-ion''\<rparr>\<rparr>"

section \<open>Basic facts\<close>

lemma and_then_Inl [simp]: "and_then (Inl e) f = Inl e"
  by (simp add: and_then_def)

lemma and_then_Inr [simp]: "and_then (Inr v) f = f v"
  by (simp add: and_then_def)

lemma and_then_Inr_iff: "and_then m f = Inr y \<longleftrightarrow> (\<exists>x. m = Inr x \<and> f x = Inr y)"
  by (cases m) simp_all

lemma cstr_plain: "NUL \<notin> set s \<Longrightarrow> cstr s = s"
  by (auto simp: cstr_def takeWhile_eq_all_conv)

subsection \<open>What \<^verbatim>\<open>readFromFile\<close> delivers\<close>

lemma trim_count_prefix:
  "\<forall>i<n. a ! i = b ! i \<Longrightarrow> trim_count a n = trim_count b n"
  by (induction n) simp_all

lemma trim_count_stop:
  "s = [] \<or> last s \<noteq> NEWLINE \<Longrightarrow> trim_count (s @ t) (length s) = length s"
  by (cases s rule: rev_cases) (simp_all add: nth_append)

lemma trim_count_newlines:
  "s = [] \<or> last s \<noteq> NEWLINE \<Longrightarrow>
   trim_count (s @ replicate m NEWLINE) (length s + m) = length s"
proof (induction m)
  case 0
  then show ?case using trim_count_stop [of s "[]"] by simp
next
  case (Suc m)
  let ?xs = "s @ replicate m NEWLINE"
  have eq: "s @ replicate (Suc m) NEWLINE = ?xs @ [NEWLINE]"
    by (simp add: replicate_append_same)
  have "trim_count (?xs @ [NEWLINE]) (length s + m) = trim_count ?xs (length s + m)"
    by (rule trim_count_prefix) (simp add: nth_append)
  moreover have "(?xs @ [NEWLINE]) ! (length s + m) = NEWLINE"
    by (simp add: nth_append)
  ultimately show ?case
    using Suc unfolding eq by simp
qed

lemma readFromFile_File:
  "path \<noteq> [] \<Longrightarrow> files w path = Some (File c) \<Longrightarrow> take sz c = buf \<Longrightarrow>
   readFromFile path sz w =
     (if buf \<noteq> [] then
        if trim_count buf (length buf) < sz
        then Inr ((int (trim_count buf (length buf)), take (trim_count buf (length buf)) buf),
                  w\<lparr>opens := opens w @ [path]\<rparr>)
        else Inl BufferOverrun
      else Inr ((0, []), w\<lparr>opens := opens w @ [path]\<rparr>))"
  by (simp add: readFromFile_def Let_def)

text \<open>
  A file that holds \<open>s\<close> and then only newlines, \<open>s\<close> shorter than the buffer: the read
  delivers \<open>s\<close>.
\<close>

lemma readFromFile_content:
  assumes "path \<noteq> []" and "files w path = Some (File (s @ replicate n NEWLINE))"
    and "s = [] \<or> last s \<noteq> NEWLINE" and "length s < sz"
  shows "readFromFile path sz w = Inr ((int (length s), s), w\<lparr>opens := opens w @ [path]\<rparr>)"
proof -
  define m where "m = min (sz - length s) n"
  define buf where "buf = s @ replicate m NEWLINE"
  have buf: "take sz (s @ replicate n NEWLINE) = buf"
    using assms(4) by (simp add: buf_def m_def)
  have trim: "trim_count buf (length buf) = length s"
    using trim_count_newlines [OF assms(3), of m] by (simp add: buf_def)
  have tk: "take (length s) buf = s"
    by (simp add: buf_def)
  have "buf = [] \<Longrightarrow> s = []"
    by (simp add: buf_def)
  then show ?thesis
    unfolding readFromFile_File [OF assms(1,2) buf] trim tk
    using assms(4) by auto
qed

subsection \<open>What the helpers of the poll do\<close>

lemma readFromFile_effect:
  "readFromFile path sz w = Inr (r, w') \<Longrightarrow>
   read_result w path sz = Inr r \<and> w' = w\<lparr>opens := opens w @ (if path = [] then [] else [path])\<rparr>"
  by (auto simp: read_result_def readFromFile_def Let_def split: if_splits option.splits node.splits)

lemma read_result_files:
  "files w2 = files w \<Longrightarrow> read_result w2 path sz = read_result w path sz"
  by (auto simp: read_result_def readFromFile_def Let_def split: if_splits option.splits node.splits)

lemma read_result_opens [simp]: "read_result (w\<lparr>opens := x\<rparr>) path sz = read_result w path sz"
  by (rule read_result_files) simp

lemma read_result_thiz [simp]: "read_result (w\<lparr>thiz := x\<rparr>) path sz = read_result w path sz"
  by (rule read_result_files) simp

lemma read_result_empty [simp]: "read_result w [] sz = Inr (- 1, [])"
  by (simp add: read_result_def readFromFile_def)

lemma setBooleanField_effect:
  assumes "setBooleanField path f w = Inr w'"
  shows "\<exists>count buf. read_result w path 16 = Inr (count, buf) \<and>
    w' = w\<lparr>opens := opens w @ (if path = [] then [] else [path]),
           thiz := SetBooleanField f (count > 0 \<and> byte_at buf 0 \<noteq> CHR ''0'') (thiz w)\<rparr>"
proof -
  from assms obtain count buf w1 where rd: "readFromFile path 16 w = Inr ((count, buf), w1)"
    and w': "w' = w1\<lparr>thiz := SetBooleanField f
                 (if count > 0 \<and> byte_at buf 0 \<noteq> CHR ''0'' then True else False) (thiz w1)\<rparr>"
    by (auto simp: setBooleanField_def and_then_Inr_iff)
  have b: "(if count > 0 \<and> byte_at buf 0 \<noteq> CHR ''0'' then True else False) =
           (count > 0 \<and> byte_at buf 0 \<noteq> CHR ''0'')"
    by simp
  from readFromFile_effect [OF rd] w' show ?thesis
    unfolding b by simp
qed

lemma setIntField_effect:
  assumes "setIntField path f w = Inr w'"
  shows "\<exists>count buf v. read_result w path 128 = Inr (count, buf) \<and>
    (if count > 0 then atoi (cstr buf) = Inr v else v = 0) \<and>
    w' = w\<lparr>opens := opens w @ (if path = [] then [] else [path]),
           thiz := SetIntField f v (thiz w)\<rparr>"
proof -
  from assms obtain count buf w1 v where rd: "readFromFile path 128 w = Inr ((count, buf), w1)"
    and v: "(if count > 0 then atoi (cstr buf) else Inr 0) = Inr v"
    and w': "w' = w1\<lparr>thiz := SetIntField f v (thiz w1)\<rparr>"
    by (auto simp: setIntField_def and_then_Inr_iff)
  from v have c: "if count > 0 then atoi (cstr buf) = Inr v else v = 0"
    by (auto split: if_splits)
  from readFromFile_effect [OF rd] w'
  have "read_result w path 128 = Inr (count, buf)"
    and "w' = w\<lparr>opens := opens w @ (if path = [] then [] else [path]),
               thiz := SetIntField f v (thiz w)\<rparr>"
    by simp_all
  with c show ?thesis by blast
qed

lemma setVoltageField_effect:
  assumes "setVoltageField g path f w = Inr w'"
  shows "\<exists>count buf v. read_result w path 128 = Inr (count, buf) \<and>
    (if count > 0
     then and_then (atoi (cstr buf)) (\<lambda>value. int_div value (gVoltageDivisor g)) = Inr v
     else v = 0) \<and>
    w' = w\<lparr>opens := opens w @ (if path = [] then [] else [path]),
           thiz := SetIntField f v (thiz w)\<rparr>"
proof -
  from assms obtain count buf w1 v where rd: "readFromFile path 128 w = Inr ((count, buf), w1)"
    and v: "(if count > 0
             then and_then (atoi (cstr buf)) (\<lambda>value. int_div value (gVoltageDivisor g))
             else Inr 0) = Inr v"
    and w': "w' = w1\<lparr>thiz := SetIntField f v (thiz w1)\<rparr>"
    by (auto simp: setVoltageField_def and_then_Inr_iff)
  from v have c: "if count > 0
      then and_then (atoi (cstr buf)) (\<lambda>value. int_div value (gVoltageDivisor g)) = Inr v
      else v = 0"
    by (auto split: if_splits)
  from readFromFile_effect [OF rd] w'
  have "read_result w path 128 = Inr (count, buf)"
    and "w' = w\<lparr>opens := opens w @ (if path = [] then [] else [path]),
               thiz := SetIntField f v (thiz w)\<rparr>"
    by simp_all
  with c show ?thesis by blast
qed

text \<open>
  A \<^verbatim>\<open>setChargeLevel\<close> that returns keeps the files, and keeps the object or sets the
  field.
\<close>

lemma setChargeLevel_frame:
  assumes "setChargeLevel g f w = Inr w'"
  shows "files w' = files w \<and> entries w' = entries w \<and>
         (thiz w' = thiz w \<or> (\<exists>v. thiz w' = SetIntField f v (thiz w)))"
  using assms
  by (auto simp: setChargeLevel_def and_then_Inr_iff dest!: readFromFile_effect split: if_splits)


lemma readFromFile_as_result:
  "readFromFile path sz w =
     (case read_result w path sz of
        Inl e \<Rightarrow> Inl e
      | Inr r \<Rightarrow> Inr (r, w\<lparr>opens := opens w @ (if path = [] then [] else [path])\<rparr>))"
  by (auto simp: read_result_def readFromFile_def Let_def split: option.splits node.splits)

lemma readPowerSupplyType_effect:
  assumes "readPowerSupplyType path w = Inr (t, w')"
  shows "w' = w\<lparr>opens := opens w @ (if path = [] then [] else [path])\<rparr>"
proof (cases "readFromFile path 128 w")
  case (Inl e)
  with assms show ?thesis by (simp add: readPowerSupplyType_def)
next
  case (Inr r)
  obtain len buf0 w1 where r: "r = ((len, buf0), w1)"
    by (metis prod.exhaust)
  have "map_sum id snd (readPowerSupplyType path w) = Inr w1"
    by (simp add: readPowerSupplyType_def Inr r Let_def if_distrib [where f = "map_sum id snd"])
  with assms have "w' = w1" by simp
  with readFromFile_effect [of path 128 w "(len, buf0)" w1] Inr r show ?thesis by simp
qed


lemma supply_online_files:
  "files w2 = files w \<Longrightarrow> supply_online w2 name = supply_online w name"
  by (simp add: supply_online_def read_result_files [of w2 w])

lemma readPowerSupplyType_files:
  assumes "files w2 = files w"
  shows "map_sum id fst (readPowerSupplyType path w2) = map_sum id fst (readPowerSupplyType path w)"
proof (cases "read_result w path 128")
  case (Inl e)
  then show ?thesis
    by (simp add: readPowerSupplyType_def readFromFile_as_result read_result_files [OF assms])
next
  case (Inr r)
  obtain len buf0 where "r = (len, buf0)" by (cases r)
  with Inr show ?thesis
    by (simp add: readPowerSupplyType_def readFromFile_as_result read_result_files [OF assms]
          Let_def if_distrib [where f = "map_sum id fst"])
qed

lemma supply_type_eq: "supply_type w name =
  (case map_sum id fst (readPowerSupplyType (power_supply_file name ''type'') w) of
     Inr t \<Rightarrow> t | Inl e \<Rightarrow> ANDROID_POWER_SUPPLY_TYPE_UNKNOWN)"
  by (simp add: supply_type_def split: sum.splits)

lemma supply_type_files:
  "files w2 = files w \<Longrightarrow> supply_type w2 name = supply_type w name"
  by (simp add: supply_type_eq readPowerSupplyType_files [of w2 w])

lemma charger_loop_Cons_Inr:
  assumes "charger_loop (name # rest) i (ac, usb, wl) w = Inr res"
  shows "\<exists>count buf w1.
    readFromFile (power_supply_file name ''online'') 128 w = Inr ((count, buf), w1) \<and>
    (if count > 0 \<and> byte_at buf 0 \<noteq> CHR ''0'' then
       \<exists>t w2. readPowerSupplyType (power_supply_file name ''type'') w1 = Inr (t, w2) \<and>
         charger_loop rest (Suc i)
           (case t of
              ANDROID_POWER_SUPPLY_TYPE_AC \<Rightarrow> (True, usb, wl)
            | ANDROID_POWER_SUPPLY_TYPE_USB \<Rightarrow> (ac, True, wl)
            | ANDROID_POWER_SUPPLY_TYPE_WIRELESS \<Rightarrow> (ac, usb, True)
            | _ \<Rightarrow> (ac, usb, wl)) w2 = Inr res
     else charger_loop rest (Suc i) (ac, usb, wl) w1 = Inr res)"
proof (cases "readFromFile (power_supply_file name ''online'') 128 w")
  case (Inl e)
  with assms show ?thesis by simp
next
  case (Inr r)
  obtain count buf w1 where r: "r = ((count, buf), w1)"
    by (metis prod.exhaust)
  show ?thesis
  proof (cases "count > 0 \<and> byte_at buf 0 \<noteq> CHR ''0''")
    case False
    with assms Inr r show ?thesis by auto
  next
    case True
    show ?thesis
    proof (cases "readPowerSupplyType (power_supply_file name ''type'') w1")
      case (Inl e)
      with assms Inr r True show ?thesis by simp
    next
      case (Inr tw)
      obtain t w2 where "tw = (t, w2)" by (cases tw)
      with assms \<open>readFromFile (power_supply_file name ''online'') 128 w = Inr r\<close> r True Inr
      show ?thesis by simp
    qed
  qed
qed


lemma charger_loop_effect:
  "charger_loop names i (ac, usb, wl) w = Inr ((i', ac', usb', wl'), w') \<Longrightarrow>
   i' = i + length names \<and> files w' = files w \<and> entries w' = entries w \<and> thiz w' = thiz w \<and>
   ac' = (ac \<or> (\<exists>name\<in>set names. supply_online w name \<and>
                   supply_type w name = ANDROID_POWER_SUPPLY_TYPE_AC)) \<and>
   usb' = (usb \<or> (\<exists>name\<in>set names. supply_online w name \<and>
                   supply_type w name = ANDROID_POWER_SUPPLY_TYPE_USB)) \<and>
   wl' = (wl \<or> (\<exists>name\<in>set names. supply_online w name \<and>
                   supply_type w name = ANDROID_POWER_SUPPLY_TYPE_WIRELESS))"
proof (induction names arbitrary: i ac usb wl w)
  case Nil
  then show ?case by simp
next
  case (Cons name rest)
  define hit where "hit T \<longleftrightarrow> supply_online w name \<and> supply_type w name = T" for T
  from charger_loop_Cons_Inr [OF Cons.prems] obtain count buf w1 where
    rd: "readFromFile (power_supply_file name ''online'') 128 w = Inr ((count, buf), w1)"
    and body: "if count > 0 \<and> byte_at buf 0 \<noteq> CHR ''0'' then
       \<exists>t w2. readPowerSupplyType (power_supply_file name ''type'') w1 = Inr (t, w2) \<and>
         charger_loop rest (Suc i)
           (case t of
              ANDROID_POWER_SUPPLY_TYPE_AC \<Rightarrow> (True, usb, wl)
            | ANDROID_POWER_SUPPLY_TYPE_USB \<Rightarrow> (ac, True, wl)
            | ANDROID_POWER_SUPPLY_TYPE_WIRELESS \<Rightarrow> (ac, usb, True)
            | _ \<Rightarrow> (ac, usb, wl)) w2 = Inr ((i', ac', usb', wl'), w')
     else charger_loop rest (Suc i) (ac, usb, wl) w1 = Inr ((i', ac', usb', wl'), w')"
    by blast
  from readFromFile_effect [OF rd]
  have rr: "read_result w (power_supply_file name ''online'') 128 = Inr (count, buf)"
    and w1: "files w1 = files w" "entries w1 = entries w" "thiz w1 = thiz w"
    by simp_all
  have on: "supply_online w name = (count > 0 \<and> byte_at buf 0 \<noteq> CHR ''0'')"
    by (simp add: supply_online_def rr)
  have "\<exists>w2. charger_loop rest (Suc i)
                (ac \<or> hit ANDROID_POWER_SUPPLY_TYPE_AC, usb \<or> hit ANDROID_POWER_SUPPLY_TYPE_USB,
                 wl \<or> hit ANDROID_POWER_SUPPLY_TYPE_WIRELESS) w2 = Inr ((i', ac', usb', wl'), w') \<and>
              files w2 = files w \<and> entries w2 = entries w \<and> thiz w2 = thiz w"
  proof (cases "supply_online w name")
    case False
    with on body
    have "charger_loop rest (Suc i) (ac, usb, wl) w1 = Inr ((i', ac', usb', wl'), w')"
      by (simp split: if_splits)
    with False w1 show ?thesis
      unfolding hit_def by auto
  next
    case True
    with on body obtain t w2 where
      ty: "readPowerSupplyType (power_supply_file name ''type'') w1 = Inr (t, w2)"
      and loop: "charger_loop rest (Suc i)
           (case t of
              ANDROID_POWER_SUPPLY_TYPE_AC \<Rightarrow> (True, usb, wl)
            | ANDROID_POWER_SUPPLY_TYPE_USB \<Rightarrow> (ac, True, wl)
            | ANDROID_POWER_SUPPLY_TYPE_WIRELESS \<Rightarrow> (ac, usb, True)
            | _ \<Rightarrow> (ac, usb, wl)) w2 = Inr ((i', ac', usb', wl'), w')"
      by (auto split: if_splits)
    from readPowerSupplyType_effect [OF ty] w1
    have w2: "files w2 = files w" "entries w2 = entries w" "thiz w2 = thiz w"
      by simp_all
    have "supply_type w1 name = t"
      using ty by (simp add: supply_type_def)
    then have t: "supply_type w name = t"
      by (simp add: supply_type_files [OF w1(1)])
    have flags: "(case t of
          ANDROID_POWER_SUPPLY_TYPE_AC \<Rightarrow> (True, usb, wl)
        | ANDROID_POWER_SUPPLY_TYPE_USB \<Rightarrow> (ac, True, wl)
        | ANDROID_POWER_SUPPLY_TYPE_WIRELESS \<Rightarrow> (ac, usb, True)
        | _ \<Rightarrow> (ac, usb, wl)) =
        (ac \<or> hit ANDROID_POWER_SUPPLY_TYPE_AC, usb \<or> hit ANDROID_POWER_SUPPLY_TYPE_USB,
         wl \<or> hit ANDROID_POWER_SUPPLY_TYPE_WIRELESS)"
      using True t by (cases t) (simp_all add: hit_def)
    from loop w2 show ?thesis
      unfolding flags by blast
  qed
  then obtain w2 where step: "charger_loop rest (Suc i)
        (ac \<or> hit ANDROID_POWER_SUPPLY_TYPE_AC, usb \<or> hit ANDROID_POWER_SUPPLY_TYPE_USB,
         wl \<or> hit ANDROID_POWER_SUPPLY_TYPE_WIRELESS) w2 = Inr ((i', ac', usb', wl'), w')"
    and w2: "files w2 = files w" "entries w2 = entries w" "thiz w2 = thiz w"
    by blast
  have same: "supply_online w2 n = supply_online w n" "supply_type w2 n = supply_type w n" for n
    by (simp_all add: supply_online_files [OF w2(1)] supply_type_files [OF w2(1)])
  from Cons.IH [OF step] show ?case
    unfolding same w2 hit_def by auto
qed


lemma update_steps:
  assumes "android_server_BatteryService_update g w = Inr w'"
  shows "\<exists>w1 w2 w3 w4 count5 buf5 w5 count7 buf7 w7 count9 buf9 w9 i ac usb wl w11.
    setBooleanField (batteryPresentPath (gPaths g)) BatteryPresentID w = Inr w1 \<and>
    (if batteryPresentPath (gPaths g) = [] then
       Inr (w1\<lparr>thiz := SetIntField BatteryLevelID 100 (thiz w1)\<rparr>)
     else if batteryCapacityPath (gPaths g) = [] then setChargeLevel g BatteryLevelID w1
     else setIntField (batteryCapacityPath (gPaths g)) BatteryLevelID w1) = Inr w2 \<and>
    setVoltageField g (batteryVoltagePath (gPaths g)) BatteryVoltageID w2 = Inr w3 \<and>
    setIntField (batteryTemperaturePath (gPaths g)) BatteryTemperatureID w3 = Inr w4 \<and>
    readFromFile (batteryStatusPath (gPaths g)) 128 w4 = Inr ((count5, buf5), w5) \<and>
    readFromFile (batteryHealthPath (gPaths g)) 128
      (if count5 > 0
       then w5\<lparr>thiz := SetIntField BatteryStatusID
                         (getBatteryStatus (gConstants g) (cstr buf5)) (thiz w5)\<rparr>
       else w5\<lparr>thiz := SetIntField BatteryStatusID
                         (statusUnknown (gConstants g)) (thiz w5)\<rparr>) = Inr ((count7, buf7), w7) \<and>
    readFromFile (batteryTechnologyPath (gPaths g)) 128
      (if count7 > 0
       then w7\<lparr>thiz := SetIntField BatteryHealthID
                         (getBatteryHealth (gConstants g) (cstr buf7)) (thiz w7)\<rparr>
       else w7) = Inr ((count9, buf9), w9) \<and>
    charger_loop (gChargerNames g) 0 (False, False, False)
      (if count9 > 0
       then w9\<lparr>thiz := (thiz w9)\<lparr>mBatteryTechnology := Some (cstr buf9)\<rparr>\<rparr>
       else w9) = Inr ((i, ac, usb, wl), w11) \<and>
    w' = w11\<lparr>thiz := SetBooleanField WirelessOnlineID wl
                    (SetBooleanField UsbOnlineID usb
                      (SetBooleanField AcOnlineID (if i = 0 then True else ac) (thiz w11)))\<rparr>"
  using assms unfolding android_server_BatteryService_update_def
  by (simp only: and_then_Inr_iff split_paired_Ex prod.case Let_def) blast


lemma level_step:
  assumes "(if pp = [] then Inr (w1\<lparr>thiz := SetIntField BatteryLevelID 100 (thiz w1)\<rparr>)
            else if cp = [] then setChargeLevel g BatteryLevelID w1
            else setIntField cp BatteryLevelID w1) = Inr w2"
  shows "files w2 = files w1 \<and> entries w2 = entries w1 \<and>
         (\<exists>level. thiz w2 = (thiz w1)\<lparr>mBatteryLevel := level\<rparr> \<and> (pp = [] \<longrightarrow> level = 100))"
proof (cases "pp = []")
  case True
  with assms have "w2 = w1\<lparr>thiz := SetIntField BatteryLevelID 100 (thiz w1)\<rparr>" by simp
  with True show ?thesis by simp
next
  case False
  show ?thesis
  proof (cases "cp = []")
    case True
    with False assms have "setChargeLevel g BatteryLevelID w1 = Inr w2" by simp
    from setChargeLevel_frame [OF this] False show ?thesis
      by (auto intro: exI [of _ "mBatteryLevel (thiz w1)"])
  next
    case cp: False
    with False assms have "setIntField cp BatteryLevelID w1 = Inr w2" by simp
    from setIntField_effect [OF this] False show ?thesis
      by auto
  qed
qed


lemma update_object:
  assumes "android_server_BatteryService_update g w = Inr w'"
  shows "\<exists>cp bp level cv bv voltage ct bt temperature cs bs ch bh cn bn.
     read_result w (batteryPresentPath (gPaths g)) 16 = Inr (cp, bp) \<and>
     (batteryPresentPath (gPaths g) = [] \<longrightarrow> level = 100) \<and>
     read_result w (batteryVoltagePath (gPaths g)) 128 = Inr (cv, bv) \<and>
     (if cv > 0
      then and_then (atoi (cstr bv)) (\<lambda>value. int_div value (gVoltageDivisor g)) = Inr voltage
      else voltage = 0) \<and>
     read_result w (batteryTemperaturePath (gPaths g)) 128 = Inr (ct, bt) \<and>
     (if ct > 0 then atoi (cstr bt) = Inr temperature else temperature = 0) \<and>
     read_result w (batteryStatusPath (gPaths g)) 128 = Inr (cs, bs) \<and>
     read_result w (batteryHealthPath (gPaths g)) 128 = Inr (ch, bh) \<and>
     read_result w (batteryTechnologyPath (gPaths g)) 128 = Inr (cn, bn) \<and>
     files w' = files w \<and> entries w' = entries w \<and>
     thiz w' = (thiz w)\<lparr>
       mAcOnline := (gChargerNames g = [] \<or>
         (\<exists>name\<in>set (gChargerNames g).
            supply_online w name \<and> supply_type w name = ANDROID_POWER_SUPPLY_TYPE_AC)),
       mUsbOnline := (\<exists>name\<in>set (gChargerNames g).
            supply_online w name \<and> supply_type w name = ANDROID_POWER_SUPPLY_TYPE_USB),
       mWirelessOnline := (\<exists>name\<in>set (gChargerNames g).
            supply_online w name \<and> supply_type w name = ANDROID_POWER_SUPPLY_TYPE_WIRELESS),
       mBatteryStatus := (if cs > 0 then getBatteryStatus (gConstants g) (cstr bs)
                          else statusUnknown (gConstants g)),
       mBatteryHealth := (if ch > 0 then getBatteryHealth (gConstants g) (cstr bh)
                          else mBatteryHealth (thiz w)),
       mBatteryPresent := (cp > 0 \<and> byte_at bp 0 \<noteq> CHR ''0''),
       mBatteryLevel := level,
       mBatteryVoltage := voltage,
       mBatteryTemperature := temperature,
       mBatteryTechnology := (if cn > 0 then Some (cstr bn) else mBatteryTechnology (thiz w))\<rparr>"
proof -
  let ?P = "gPaths g"
  from update_steps [OF assms]
  obtain w1 w2 w3 w4 cs bs w5 ch bh w7 cn bn w9 i ac usb wl w11 where
    s1: "setBooleanField (batteryPresentPath ?P) BatteryPresentID w = Inr w1" and
    s2: "(if batteryPresentPath ?P = [] then
       Inr (w1\<lparr>thiz := SetIntField BatteryLevelID 100 (thiz w1)\<rparr>)
     else if batteryCapacityPath ?P = [] then setChargeLevel g BatteryLevelID w1
     else setIntField (batteryCapacityPath ?P) BatteryLevelID w1) = Inr w2" and
    s3: "setVoltageField g (batteryVoltagePath ?P) BatteryVoltageID w2 = Inr w3" and
    s4: "setIntField (batteryTemperaturePath ?P) BatteryTemperatureID w3 = Inr w4" and
    s5: "readFromFile (batteryStatusPath ?P) 128 w4 = Inr ((cs, bs), w5)" and
    s7: "readFromFile (batteryHealthPath ?P) 128
      (if cs > 0
       then w5\<lparr>thiz := SetIntField BatteryStatusID
                         (getBatteryStatus (gConstants g) (cstr bs)) (thiz w5)\<rparr>
       else w5\<lparr>thiz := SetIntField BatteryStatusID
                         (statusUnknown (gConstants g)) (thiz w5)\<rparr>) = Inr ((ch, bh), w7)" and
    s9: "readFromFile (batteryTechnologyPath ?P) 128
      (if ch > 0
       then w7\<lparr>thiz := SetIntField BatteryHealthID
                         (getBatteryHealth (gConstants g) (cstr bh)) (thiz w7)\<rparr>
       else w7) = Inr ((cn, bn), w9)" and
    s11: "charger_loop (gChargerNames g) 0 (False, False, False)
      (if cn > 0
       then w9\<lparr>thiz := (thiz w9)\<lparr>mBatteryTechnology := Some (cstr bn)\<rparr>\<rparr>
       else w9) = Inr ((i, ac, usb, wl), w11)" and
    w': "w' = w11\<lparr>thiz := SetBooleanField WirelessOnlineID wl
                    (SetBooleanField UsbOnlineID usb
                      (SetBooleanField AcOnlineID (if i = 0 then True else ac) (thiz w11)))\<rparr>"
    by blast
  let ?t0 = "thiz w"
  \<comment> \<open>the presence flag\<close>
  from setBooleanField_effect [OF s1] obtain cp bp where
    rp: "read_result w (batteryPresentPath ?P) 16 = Inr (cp, bp)" and
    f1: "files w1 = files w" "entries w1 = entries w" and
    t1: "thiz w1 = ?t0\<lparr>mBatteryPresent := (cp > 0 \<and> byte_at bp 0 \<noteq> CHR ''0'')\<rparr>"
    by auto
  \<comment> \<open>the level\<close>
  from level_step [OF s2] obtain level where
    f2: "files w2 = files w1" "entries w2 = entries w1" and
    t2: "thiz w2 = (thiz w1)\<lparr>mBatteryLevel := level\<rparr>" and
    lv: "batteryPresentPath ?P = [] \<longrightarrow> level = 100"
    by blast
  \<comment> \<open>voltage and temperature\<close>
  from setVoltageField_effect [OF s3] obtain cv bv voltage where
    rv: "read_result w2 (batteryVoltagePath ?P) 128 = Inr (cv, bv)" and
    vv: "if cv > 0
         then and_then (atoi (cstr bv)) (\<lambda>value. int_div value (gVoltageDivisor g)) = Inr voltage
         else voltage = 0" and
    f3: "files w3 = files w2" "entries w3 = entries w2" and
    t3: "thiz w3 = (thiz w2)\<lparr>mBatteryVoltage := voltage\<rparr>"
    by auto
  from setIntField_effect [OF s4] obtain ct bt temperature where
    rt: "read_result w3 (batteryTemperaturePath ?P) 128 = Inr (ct, bt)" and
    tv: "if ct > 0 then atoi (cstr bt) = Inr temperature else temperature = 0" and
    f4: "files w4 = files w3" "entries w4 = entries w3" and
    t4: "thiz w4 = (thiz w3)\<lparr>mBatteryTemperature := temperature\<rparr>"
    by auto
  \<comment> \<open>status, health, technology\<close>
  from readFromFile_effect [OF s5] have
    rs: "read_result w4 (batteryStatusPath ?P) 128 = Inr (cs, bs)" and
    f5: "files w5 = files w4" "entries w5 = entries w4" and
    t5: "thiz w5 = thiz w4"
    by simp_all
  from readFromFile_effect [OF s7] have
    rh: "read_result w5 (batteryHealthPath ?P) 128 = Inr (ch, bh)" and
    f7: "files w7 = files w5" "entries w7 = entries w5" and
    t7: "thiz w7 = (thiz w5)\<lparr>mBatteryStatus :=
           (if cs > 0 then getBatteryStatus (gConstants g) (cstr bs)
            else statusUnknown (gConstants g))\<rparr>"
    by (simp_all split: if_splits)
  from readFromFile_effect [OF s9] have
    rn: "read_result w7 (batteryTechnologyPath ?P) 128 = Inr (cn, bn)" and
    f9: "files w9 = files w7" "entries w9 = entries w7" and
    t9: "thiz w9 = (thiz w7)\<lparr>mBatteryHealth :=
           (if ch > 0 then getBatteryHealth (gConstants g) (cstr bh)
            else mBatteryHealth (thiz w7))\<rparr>"
    by (simp_all split: if_splits)
  \<comment> \<open>the chargers\<close>
  define w10 where "w10 = (if cn > 0
       then w9\<lparr>thiz := (thiz w9)\<lparr>mBatteryTechnology := Some (cstr bn)\<rparr>\<rparr> else w9)"
  have f10: "files w10 = files w9" "entries w10 = entries w9" and
    t10: "thiz w10 = (thiz w9)\<lparr>mBatteryTechnology :=
           (if cn > 0 then Some (cstr bn) else mBatteryTechnology (thiz w9))\<rparr>"
    by (simp_all add: w10_def)
  from charger_loop_effect [OF s11 [folded w10_def]] have
    i: "i = length (gChargerNames g)" and
    f11: "files w11 = files w10" "entries w11 = entries w10" and
    t11: "thiz w11 = thiz w10" and
    flags: "ac = (\<exists>name\<in>set (gChargerNames g).
                    supply_online w10 name \<and> supply_type w10 name = ANDROID_POWER_SUPPLY_TYPE_AC)"
           "usb = (\<exists>name\<in>set (gChargerNames g).
                    supply_online w10 name \<and> supply_type w10 name = ANDROID_POWER_SUPPLY_TYPE_USB)"
           "wl = (\<exists>name\<in>set (gChargerNames g).
                    supply_online w10 name \<and> supply_type w10 name = ANDROID_POWER_SUPPLY_TYPE_WIRELESS)"
    by simp_all
  \<comment> \<open>every world has the files of the first\<close>
  have fw2: "files w2 = files w" using f1 f2 by simp
  have fw3: "files w3 = files w" using fw2 f3 by simp
  have fw4: "files w4 = files w" using fw3 f4 by simp
  have fw5: "files w5 = files w" using fw4 f5 by simp
  have fw7: "files w7 = files w" using fw5 f7 by simp
  have fw10: "files w10 = files w" using fw7 f9 f10 by simp
  have fw': "files w' = files w" "entries w' = entries w"
    using fw10 f11 w' f1 f2 f3 f4 f5 f7 f9 f10 by simp_all
  note reads = rp rv [unfolded read_result_files [OF fw2]] rt [unfolded read_result_files [OF fw3]]
    rs [unfolded read_result_files [OF fw4]] rh [unfolded read_result_files [OF fw5]]
    rn [unfolded read_result_files [OF fw7]]
  note flags' = flags [unfolded supply_online_files [OF fw10] supply_type_files [OF fw10]]
  have ac: "(if i = 0 then True else ac) =
      (gChargerNames g = [] \<or> (\<exists>name\<in>set (gChargerNames g).
            supply_online w name \<and> supply_type w name = ANDROID_POWER_SUPPLY_TYPE_AC))"
    using i flags'(1) by auto
  have "thiz w' = SetBooleanField WirelessOnlineID wl
                    (SetBooleanField UsbOnlineID usb
                      (SetBooleanField AcOnlineID (if i = 0 then True else ac) (thiz w11)))"
    using w' by simp
  then have obj: "thiz w' = ?t0\<lparr>
       mAcOnline := (gChargerNames g = [] \<or>
         (\<exists>name\<in>set (gChargerNames g).
            supply_online w name \<and> supply_type w name = ANDROID_POWER_SUPPLY_TYPE_AC)),
       mUsbOnline := (\<exists>name\<in>set (gChargerNames g).
            supply_online w name \<and> supply_type w name = ANDROID_POWER_SUPPLY_TYPE_USB),
       mWirelessOnline := (\<exists>name\<in>set (gChargerNames g).
            supply_online w name \<and> supply_type w name = ANDROID_POWER_SUPPLY_TYPE_WIRELESS),
       mBatteryStatus := (if cs > 0 then getBatteryStatus (gConstants g) (cstr bs)
                          else statusUnknown (gConstants g)),
       mBatteryHealth := (if ch > 0 then getBatteryHealth (gConstants g) (cstr bh)
                          else mBatteryHealth ?t0),
       mBatteryPresent := (cp > 0 \<and> byte_at bp 0 \<noteq> CHR ''0''),
       mBatteryLevel := level,
       mBatteryVoltage := voltage,
       mBatteryTemperature := temperature,
       mBatteryTechnology := (if cn > 0 then Some (cstr bn) else mBatteryTechnology ?t0)\<rparr>"
    unfolding ac flags'(2,3) t11 t10 t9 t7 t5 t4 t3 t2 t1
    by simp
  from reads lv vv tv fw' obj show ?thesis
    by blast
qed

subsection \<open>The poll as a whole\<close>

lemma charger_loop_opens:
  "charger_loop names i flags w = Inr (r, w') \<Longrightarrow>
   set (opens w') \<subseteq> set (opens w) \<union>
     (\<Union>name\<in>set names. {power_supply_file name ''online'', power_supply_file name ''type''})"
proof (induction names arbitrary: i flags w)
  case Nil
  then show ?case by simp
next
  case (Cons name rest)
  obtain ac usb wl where flags: "flags = (ac, usb, wl)" by (cases flags)
  from charger_loop_Cons_Inr [OF Cons.prems [unfolded flags]] obtain count buf w1 where
    rd: "readFromFile (power_supply_file name ''online'') 128 w = Inr ((count, buf), w1)"
    and body: "if count > 0 \<and> byte_at buf 0 \<noteq> CHR ''0'' then
       \<exists>t w2. readPowerSupplyType (power_supply_file name ''type'') w1 = Inr (t, w2) \<and>
         charger_loop rest (Suc i)
           (case t of
              ANDROID_POWER_SUPPLY_TYPE_AC \<Rightarrow> (True, usb, wl)
            | ANDROID_POWER_SUPPLY_TYPE_USB \<Rightarrow> (ac, True, wl)
            | ANDROID_POWER_SUPPLY_TYPE_WIRELESS \<Rightarrow> (ac, usb, True)
            | _ \<Rightarrow> (ac, usb, wl)) w2 = Inr (r, w')
     else charger_loop rest (Suc i) (ac, usb, wl) w1 = Inr (r, w')"
    by blast
  from readFromFile_effect [OF rd]
  have o1: "set (opens w1) \<subseteq> set (opens w) \<union> {power_supply_file name ''online''}"
    by auto
  have "\<exists>w2 flags2. charger_loop rest (Suc i) flags2 w2 = Inr (r, w') \<and>
      set (opens w2) \<subseteq> set (opens w) \<union>
        {power_supply_file name ''online'', power_supply_file name ''type''}"
  proof (cases "count > 0 \<and> byte_at buf 0 \<noteq> CHR ''0''")
    case False
    with body have "charger_loop rest (Suc i) (ac, usb, wl) w1 = Inr (r, w')"
      by (simp split: if_splits)
    with o1 show ?thesis by blast
  next
    case True
    with body obtain t w2 where
      ty: "readPowerSupplyType (power_supply_file name ''type'') w1 = Inr (t, w2)"
      and loop: "charger_loop rest (Suc i)
           (case t of
              ANDROID_POWER_SUPPLY_TYPE_AC \<Rightarrow> (True, usb, wl)
            | ANDROID_POWER_SUPPLY_TYPE_USB \<Rightarrow> (ac, True, wl)
            | ANDROID_POWER_SUPPLY_TYPE_WIRELESS \<Rightarrow> (ac, usb, True)
            | _ \<Rightarrow> (ac, usb, wl)) w2 = Inr (r, w')"
      by (auto split: if_splits)
    from readPowerSupplyType_effect [OF ty] o1
    have "set (opens w2) \<subseteq> set (opens w) \<union>
        {power_supply_file name ''online'', power_supply_file name ''type''}"
      by auto
    with loop show ?thesis by blast
  qed
  then obtain w2 flags2 where step: "charger_loop rest (Suc i) flags2 w2 = Inr (r, w')"
    and o2: "set (opens w2) \<subseteq> set (opens w) \<union>
        {power_supply_file name ''online'', power_supply_file name ''type''}"
    by blast
  from Cons.IH [OF step] o2 show ?case
    by auto
qed


lemma update_opens_without_present:
  assumes "batteryPresentPath (gPaths g) = []"
    and "android_server_BatteryService_update g w = Inr w'"
  shows "set (opens w') \<subseteq> set (opens w) \<union>
     {batteryVoltagePath (gPaths g), batteryTemperaturePath (gPaths g),
      batteryStatusPath (gPaths g), batteryHealthPath (gPaths g),
      batteryTechnologyPath (gPaths g)} \<union>
     (\<Union>name\<in>set (gChargerNames g).
        {power_supply_file name ''online'', power_supply_file name ''type''})"
proof -
  let ?P = "gPaths g"
  from update_steps [OF assms(2)]
  obtain w1 w2 w3 w4 cs bs w5 ch bh w7 cn bn w9 i ac usb wl w11 where
    s1: "setBooleanField (batteryPresentPath ?P) BatteryPresentID w = Inr w1" and
    s2: "(if batteryPresentPath ?P = [] then
       Inr (w1\<lparr>thiz := SetIntField BatteryLevelID 100 (thiz w1)\<rparr>)
     else if batteryCapacityPath ?P = [] then setChargeLevel g BatteryLevelID w1
     else setIntField (batteryCapacityPath ?P) BatteryLevelID w1) = Inr w2" and
    s3: "setVoltageField g (batteryVoltagePath ?P) BatteryVoltageID w2 = Inr w3" and
    s4: "setIntField (batteryTemperaturePath ?P) BatteryTemperatureID w3 = Inr w4" and
    s5: "readFromFile (batteryStatusPath ?P) 128 w4 = Inr ((cs, bs), w5)" and
    s7: "readFromFile (batteryHealthPath ?P) 128
      (if cs > 0
       then w5\<lparr>thiz := SetIntField BatteryStatusID
                         (getBatteryStatus (gConstants g) (cstr bs)) (thiz w5)\<rparr>
       else w5\<lparr>thiz := SetIntField BatteryStatusID
                         (statusUnknown (gConstants g)) (thiz w5)\<rparr>) = Inr ((ch, bh), w7)" and
    s9: "readFromFile (batteryTechnologyPath ?P) 128
      (if ch > 0
       then w7\<lparr>thiz := SetIntField BatteryHealthID
                         (getBatteryHealth (gConstants g) (cstr bh)) (thiz w7)\<rparr>
       else w7) = Inr ((cn, bn), w9)" and
    s11: "charger_loop (gChargerNames g) 0 (False, False, False)
      (if cn > 0
       then w9\<lparr>thiz := (thiz w9)\<lparr>mBatteryTechnology := Some (cstr bn)\<rparr>\<rparr>
       else w9) = Inr ((i, ac, usb, wl), w11)" and
    w': "w' = w11\<lparr>thiz := SetBooleanField WirelessOnlineID wl
                    (SetBooleanField UsbOnlineID usb
                      (SetBooleanField AcOnlineID (if i = 0 then True else ac) (thiz w11)))\<rparr>"
    by blast
  from setBooleanField_effect [OF s1] assms(1) have o1: "opens w1 = opens w"
    by auto
  from s2 assms(1) have o2: "opens w2 = opens w1"
    by auto
  have grow: "set (ops @ (if p = [] then [] else [p])) \<subseteq> set ops \<union> {p}" for ops :: "String8 list" and p
    by auto
  from setVoltageField_effect [OF s3] obtain v3 where
    "w3 = w2\<lparr>opens := opens w2 @ (if batteryVoltagePath ?P = [] then [] else [batteryVoltagePath ?P]),
               thiz := SetIntField BatteryVoltageID v3 (thiz w2)\<rparr>"
    by blast
  then have "opens w3 = opens w2 @ (if batteryVoltagePath ?P = [] then [] else [batteryVoltagePath ?P])"
    by simp
  then have o3: "set (opens w3) \<subseteq> set (opens w2) \<union> {batteryVoltagePath ?P}" by (simp only: grow)
  from setIntField_effect [OF s4] obtain v4 where
    "w4 = w3\<lparr>opens := opens w3 @ (if batteryTemperaturePath ?P = [] then []
                                    else [batteryTemperaturePath ?P]),
               thiz := SetIntField BatteryTemperatureID v4 (thiz w3)\<rparr>"
    by blast
  then have "opens w4 = opens w3 @ (if batteryTemperaturePath ?P = [] then []
                                    else [batteryTemperaturePath ?P])"
    by simp
  then have o4: "set (opens w4) \<subseteq> set (opens w3) \<union> {batteryTemperaturePath ?P}" by (simp only: grow)
  from readFromFile_effect [OF s5]
  have "opens w5 = opens w4 @ (if batteryStatusPath ?P = [] then [] else [batteryStatusPath ?P])"
    by simp
  then have o5: "set (opens w5) \<subseteq> set (opens w4) \<union> {batteryStatusPath ?P}" by (simp only: grow)
  from readFromFile_effect [OF s7]
  have "opens w7 = opens w5 @ (if batteryHealthPath ?P = [] then [] else [batteryHealthPath ?P])"
    by (cases "cs > 0") simp_all
  then have o7: "set (opens w7) \<subseteq> set (opens w5) \<union> {batteryHealthPath ?P}" by (simp only: grow)
  from readFromFile_effect [OF s9]
  have "opens w9 = opens w7 @ (if batteryTechnologyPath ?P = [] then []
                               else [batteryTechnologyPath ?P])"
    by (cases "ch > 0") simp_all
  then have o9: "set (opens w9) \<subseteq> set (opens w7) \<union> {batteryTechnologyPath ?P}" by (simp only: grow)
  have "opens (if cn > 0
       then w9\<lparr>thiz := (thiz w9)\<lparr>mBatteryTechnology := Some (cstr bn)\<rparr>\<rparr>
       else w9) = opens w9"
    by simp
  with charger_loop_opens [OF s11]
  have o11: "set (opens w11) \<subseteq> set (opens w9) \<union>
     (\<Union>name\<in>set (gChargerNames g).
        {power_supply_file name ''online'', power_supply_file name ''type''})"
    by simp
  define S where "S = set (opens w) \<union>
     {batteryVoltagePath ?P, batteryTemperaturePath ?P, batteryStatusPath ?P,
      batteryHealthPath ?P, batteryTechnologyPath ?P} \<union>
     (\<Union>name\<in>set (gChargerNames g).
        {power_supply_file name ''online'', power_supply_file name ''type''})"
  have members: "set (opens w) \<subseteq> S" "batteryVoltagePath ?P \<in> S"
    "batteryTemperaturePath ?P \<in> S" "batteryStatusPath ?P \<in> S"
    "batteryHealthPath ?P \<in> S" "batteryTechnologyPath ?P \<in> S"
    "(\<Union>name\<in>set (gChargerNames g).
        {power_supply_file name ''online'', power_supply_file name ''type''}) \<subseteq> S"
    unfolding S_def by blast+
  have "set (opens w2) \<subseteq> S" using o1 o2 members(1) by simp
  with o3 members(2) have "set (opens w3) \<subseteq> S" by blast
  with o4 members(3) have "set (opens w4) \<subseteq> S" by blast
  with o5 members(4) have "set (opens w5) \<subseteq> S" by blast
  with o7 members(5) have "set (opens w7) \<subseteq> S" by blast
  with o9 members(6) have "set (opens w9) \<subseteq> S" by blast
  with o11 members(7) have "set (opens w11) \<subseteq> S" by blast
  moreover have "opens w' = opens w11" using w' by simp
  ultimately show ?thesis
    unfolding S_def by simp
qed


text \<open>The outcome of a poll is fixed by the log and the object it leaves.\<close>

lemma poll_outcome:
  assumes "map_sum id (\<lambda>w'. (opens w', thiz w')) (android_server_BatteryService_update g w) =
           Inr (ops, obj)"
  shows "android_server_BatteryService_update g w = Inr (w\<lparr>opens := ops, thiz := obj\<rparr>)"
proof (cases "android_server_BatteryService_update g w")
  case (Inl e)
  with assms show ?thesis by simp
next
  case (Inr w')
  from update_object [OF Inr] have "files w' = files w" "entries w' = entries w"
    by blast+
  moreover from assms Inr have "opens w' = ops" "thiz w' = obj"
    by simp_all
  ultimately have "w' = w\<lparr>opens := ops, thiz := obj\<rparr>"
    by (cases w', cases w) simp
  with Inr show ?thesis by simp
qed

subsection \<open>The example polls\<close>

lemma bare_world_poll:
  "android_server_BatteryService_update (discovered bare_world) bare_world = Inr bare_world_polled"
  unfolding bare_world_polled_def by (rule poll_outcome) code_simp

lemma tablet_world_poll:
  "android_server_BatteryService_update (discovered tablet_world) tablet_world = Inr tablet_world_polled"
  unfolding tablet_world_polled_def by (rule poll_outcome) code_simp


lemma desktop_world_poll:
  "android_server_BatteryService_update (discovered desktop_world) desktop_world =
     Inr desktop_world_polled"
  unfolding desktop_world_polled_def by (rule poll_outcome) code_simp

lemma unplugged_tablet_world_poll:
  "android_server_BatteryService_update (discovered unplugged_tablet_world) unplugged_tablet_world =
     Inr unplugged_tablet_world_polled"
  unfolding unplugged_tablet_world_polled_def by (rule poll_outcome) code_simp

lemma read_fails_empty: "read_fails w [] sz"
  by (simp add: read_fails_def)

subsection \<open>Discovery\<close>

lemma register_loop_dots:
  "set names \<subseteq> {''.'', ''..''} \<Longrightarrow> register_loop names gw = Inr gw"
proof (induction names)
  case Nil
  then show ?case by simp
next
  case (Cons name rest)
  then have "name = ''.'' \<or> name = ''..''" by simp
  then have "register_entry name gw = Inr gw"
    by (cases gw) (auto simp: register_entry_def byte_at_def NUL_def)
  with Cons show ?case by simp
qed

subsection \<open>The type of a supply\<close>

lemma readPowerSupplyType_plain:
  assumes "path \<noteq> []" and "files w path = Some (File (s @ replicate n NEWLINE))"
    and "s = [] \<or> last s \<noteq> NEWLINE" and "length s < 128" and "NUL \<notin> set s"
  shows "readPowerSupplyType path w =
      Inr (if s = ''Battery'' then ANDROID_POWER_SUPPLY_TYPE_BATTERY
           else if s = ''Mains'' \<or> s = ''USB_DCP'' \<or> s = ''USB_CDP'' \<or> s = ''USB_ACA''
             then ANDROID_POWER_SUPPLY_TYPE_AC
           else if s = ''USB'' then ANDROID_POWER_SUPPLY_TYPE_USB
           else if s = ''Wireless'' then ANDROID_POWER_SUPPLY_TYPE_WIRELESS
           else ANDROID_POWER_SUPPLY_TYPE_UNKNOWN,
           w\<lparr>opens := opens w @ [path]\<rparr>)"
proof -
  have rd: "readFromFile path 128 w =
      Inr ((int (length s), s), w\<lparr>opens := opens w @ [path]\<rparr>)"
    using assms(1-4) by (rule readFromFile_content)
  show ?thesis
  proof (cases "s = []")
    case True
    then show ?thesis
      by (simp add: readPowerSupplyType_def rd)
  next
    case False
    with assms(3) have "last s \<noteq> NEWLINE" by simp
    with False have nth: "s ! (length s - Suc 0) \<noteq> NEWLINE"
      by (simp add: last_conv_nth)
    from assms(5) have "cstr s = s" by (simp add: cstr_plain)
    with False nth show ?thesis
      by (simp add: readPowerSupplyType_def rd)
  qed
qed

lemma readPowerSupplyType_unreadable:
  assumes "path = [] \<or> files w path = None \<or> files w path = Some ReadError"
  shows "map_sum id fst (readPowerSupplyType path w) = Inr ANDROID_POWER_SUPPLY_TYPE_UNKNOWN"
  using assms by (auto simp: readPowerSupplyType_def readFromFile_def Let_def)

subsection \<open>The charge pair\<close>

lemma poll_fault:
  assumes "map_sum id thiz (android_server_BatteryService_update g w) = Inl e"
  shows "android_server_BatteryService_update g w = Inl e"
  using assms by (cases "android_server_BatteryService_update g w") simp_all

lemma legacy_world_poll:
  "android_server_BatteryService_update (discovered legacy_world) legacy_world =
     Inr legacy_world_polled"
  unfolding legacy_world_polled_def by (rule poll_outcome) code_simp

lemma legacy_world_without_full_poll:
  "android_server_BatteryService_update (discovered legacy_world) legacy_world_without_full =
     Inr legacy_world_without_full_polled"
  unfolding legacy_world_without_full_polled_def by (rule poll_outcome) code_simp

text \<open>
  The charge-pair read when nothing is undefined: the level is the truncated quotient.
\<close>

lemma setChargeLevel_percent:
  assumes "readFromFile (batteryChargeNowPath (gPaths g)) 128 w = Inr ((count1, buf1), w1)"
    and "count1 > 0"
    and "readFromFile (batteryChargeFullPath (gPaths g)) 128 w1 = Inr ((count2, buf2), w2)"
    and "count2 > 0"
    and "atoi (cstr buf1) = Inr now" and "in_int (now * 100)"
    and "atoi (cstr buf2) = Inr full" and "full \<noteq> 0"
  shows "setChargeLevel g fieldID w =
    Inr (w2\<lparr>thiz := SetIntField fieldID
                 (sgn (now * 100) * sgn full * (\<bar>now * 100\<bar> div \<bar>full\<bar>)) (thiz w2)\<rparr>)"
proof -
  have "now * 100 \<noteq> INT_MIN"
    unfolding INT_MIN_def by presburger
  with assms show ?thesis
    by (simp add: setChargeLevel_def int_mul_def int_div_def)
qed

text \<open>A failing read of either file leaves the object as it was.\<close>

lemma setChargeLevel_unchanged:
  assumes "readFromFile (batteryChargeNowPath (gPaths g)) 128 w = Inr ((count1, buf1), w1)"
    and "count1 > 0 \<longrightarrow>
         readFromFile (batteryChargeFullPath (gPaths g)) 128 w1 = Inr ((count2, buf2), w2) \<and> count2 \<le> 0"
  shows "\<exists>w'. setChargeLevel g fieldID w = Inr w' \<and> thiz w' = thiz w"
proof (cases "count1 > 0")
  case False
  with assms(1) readFromFile_effect [OF assms(1)] show ?thesis
    by (simp add: setChargeLevel_def)
next
  case True
  with assms(2) have rd2: "readFromFile (batteryChargeFullPath (gPaths g)) 128 w1 = Inr ((count2, buf2), w2)"
    and c2: "count2 \<le> 0" by simp_all
  from readFromFile_effect [OF assms(1)] readFromFile_effect [OF rd2]
  have "thiz w2 = thiz w" by simp
  with True assms(1) rd2 c2 show ?thesis
    by (simp add: setChargeLevel_def)
qed

subsection \<open>The scan of a battery directory\<close>

lemma two_battery_world_poll:
  "android_server_BatteryService_update (discovered two_battery_world) two_battery_world =
     Inr two_battery_world_polled"
  unfolding two_battery_world_polled_def by (rule poll_outcome) code_simp

text \<open>The test that skips \<open>.\<close> and \<open>..\<close>, on a name without NUL.\<close>

lemma dot_test:
  assumes "NUL \<notin> set name"
  shows "(byte_at name 0 = CHR ''.'' \<and>
          (byte_at name 1 = NUL \<or> (byte_at name 1 = CHR ''.'' \<and> byte_at name 2 = NUL))) \<longleftrightarrow>
         name = ''.'' \<or> name = ''..''"
proof (cases name)
  case Nil
  then show ?thesis by (simp add: byte_at_def NUL_def)
next
  case (Cons a r1)
  note c1 = this
  show ?thesis
  proof (cases r1)
    case Nil
    with c1 show ?thesis by (simp add: byte_at_def)
  next
    case (Cons b r2)
    note c2 = this
    show ?thesis
    proof (cases r2)
      case Nil
      with c1 c2 assms show ?thesis by (auto simp: byte_at_def)
    next
      case (Cons c r3)
      with c1 c2 assms show ?thesis by (auto simp: byte_at_def)
    qed
  qed
qed

lemma access_files: "files w1 = files w \<Longrightarrow> access w1 path = access w path"
  by (simp add: access_def)

text \<open>A directory whose \<^verbatim>\<open>type\<close> file says Battery goes through \<open>register_battery\<close>.\<close>

lemma register_entry_battery:
  assumes "NUL \<notin> set name" and "name \<noteq> ''.''" and "name \<noteq> ''..''"
    and "readPowerSupplyType (power_supply_file name ''type'') w =
           Inr (ANDROID_POWER_SUPPLY_TYPE_BATTERY, w1)"
  shows "register_entry name (g, w) = Inr (register_battery name w1 g, w1)"
    and "files w1 = files w"
proof -
  from dot_test [OF assms(1)] assms(2,3)
  have nd: "\<not> (byte_at name 0 = CHR ''.'' \<and>
          (byte_at name 1 = NUL \<or> (byte_at name 1 = CHR ''.'' \<and> byte_at name 2 = NUL)))"
    by simp
  show "register_entry name (g, w) = Inr (register_battery name w1 g, w1)"
    unfolding register_entry_def prod.case if_not_P [OF nd]
    by (simp add: assms(4))
  from readPowerSupplyType_effect [OF assms(4)] show "files w1 = files w"
    by simp
qed


lemma register_battery_voltage:
  "batteryVoltagePath (gPaths (register_battery name w g)) =
     (if access w (power_supply_file name ''voltage_now'')
        then power_supply_file name ''voltage_now''
      else if access w (power_supply_file name ''batt_vol'')
        then power_supply_file name ''batt_vol''
      else batteryVoltagePath (gPaths g))"
  "gVoltageDivisor (register_battery name w g) =
     (if access w (power_supply_file name ''voltage_now'') then 1000 else gVoltageDivisor g)"
  by (simp_all add: register_battery_def Let_def if_distrib [where f = gPaths]
        if_distrib [where f = batteryVoltagePath] if_distrib [where f = gVoltageDivisor]
        split del: if_split cong: if_cong)


lemma setVoltageField_divides:
  assumes "readFromFile path 128 w = Inr ((count, buf), w1)" and "count > 0"
    and "atoi (cstr buf) = Inr v" and "gVoltageDivisor g > 0"
  shows "setVoltageField g path f w =
    Inr (w1\<lparr>thiz := SetIntField f (sgn v * (\<bar>v\<bar> div gVoltageDivisor g)) (thiz w1)\<rparr>)"
  using assms by (simp add: setVoltageField_def int_div_def)

section \<open>The classifiers\<close>

text \<open>
  C9: the status classifier looks at the first character only. \<open>C\<close> gives Charging,
  \<open>D\<close> Discharging, \<open>F\<close> Full, \<open>N\<close> NotCharging, \<open>U\<close> Unknown and every other first
  character Unknown, whatever follows it; the empty string gives Unknown. So
  \<open>''Charging''\<close>, which is also what the read leaves of a file \<open>''Charging\<newline>''\<close>,
  gives Charging.
\<close>

theorem getBatteryStatus_first_character:
  "getBatteryStatus k (c # rest) =
     (if c = CHR ''C'' then statusCharging k
      else if c = CHR ''D'' then statusDischarging k
      else if c = CHR ''F'' then statusFull k
      else if c = CHR ''N'' then statusNotCharging k
      else if c = CHR ''U'' then statusUnknown k
      else statusUnknown k) \<and>
   getBatteryStatus k (c # rest) = getBatteryStatus k [c] \<and>
   getBatteryStatus k [] = statusUnknown k \<and>
   getBatteryStatus k ''Charging'' = statusCharging k"
  by (simp add: getBatteryStatus_def byte_at_def NUL_def)

text \<open>
  C7: the health classifier dispatches on the first character: \<open>C\<close> gives Cold, \<open>D\<close>
  Dead, \<open>G\<close> Good. With \<open>O\<close> the whole string decides: \<open>''Overheat''\<close> gives Overheat,
  \<open>''Over voltage''\<close> OverVoltage, anything else Unknown. With \<open>U\<close>,
  \<open>''Unspecified failure''\<close> gives UnspecifiedFailure, and \<open>''Unknown''\<close> and anything else
  Unknown. Every other first character, and the empty string, give Unknown.
\<close>

theorem getBatteryHealth_dispatch:
  "getBatteryHealth k (c # rest) =
     (if c = CHR ''C'' then healthCold k
      else if c = CHR ''D'' then healthDead k
      else if c = CHR ''G'' then healthGood k
      else if c = CHR ''O'' then
        (if c # rest = ''Overheat'' then healthOverheat k
         else if c # rest = ''Over voltage'' then healthOverVoltage k
         else healthUnknown k)
      else if c = CHR ''U'' then
        (if c # rest = ''Unspecified failure'' then healthUnspecifiedFailure k
         else if c # rest = ''Unknown'' then healthUnknown k
         else healthUnknown k)
      else healthUnknown k) \<and>
   getBatteryHealth k [] = healthUnknown k \<and>
   getBatteryHealth k ''Other'' = healthUnknown k"
  by (simp add: getBatteryHealth_def byte_at_def NUL_def)

text \<open>
  C8: the supply-type classifier matches the trimmed content of the \<^verbatim>\<open>type\<close> file
  exactly. The content is \<open>s\<close> followed by newlines only, \<open>s\<close> being plain text that the
  128-byte buffer holds with its terminator: \<open>''Battery''\<close> gives Battery, \<open>''Mains''\<close>,
  \<open>''USB_DCP''\<close>, \<open>''USB_CDP''\<close> and \<open>''USB_ACA''\<close> give AC, \<open>''USB''\<close> gives USB,
  \<open>''Wireless''\<close> gives Wireless and every other \<open>s\<close>, the empty one too, gives Unknown.
  A file that cannot be opened or read, and an empty path, give Unknown.
\<close>

theorem readPowerSupplyType_exact_match:
  "(path \<noteq> [] \<and> files w path = Some (File (s @ replicate n NEWLINE)) \<and>
    (s = [] \<or> last s \<noteq> NEWLINE) \<and> length s < 128 \<and> NUL \<notin> set s \<longrightarrow>
    readPowerSupplyType path w =
      Inr (if s = ''Battery'' then ANDROID_POWER_SUPPLY_TYPE_BATTERY
           else if s = ''Mains'' \<or> s = ''USB_DCP'' \<or> s = ''USB_CDP'' \<or> s = ''USB_ACA''
             then ANDROID_POWER_SUPPLY_TYPE_AC
           else if s = ''USB'' then ANDROID_POWER_SUPPLY_TYPE_USB
           else if s = ''Wireless'' then ANDROID_POWER_SUPPLY_TYPE_WIRELESS
           else ANDROID_POWER_SUPPLY_TYPE_UNKNOWN,
           w\<lparr>opens := opens w @ [path]\<rparr>)) \<and>
   (path = [] \<or> files w path = None \<or> files w path = Some ReadError \<longrightarrow>
    map_sum id fst (readPowerSupplyType path w) = Inr ANDROID_POWER_SUPPLY_TYPE_UNKNOWN)"
  using readPowerSupplyType_plain [of path w s n] readPowerSupplyType_unreadable [of path w]
  by blast

theorem readPowerSupplyType_exact_match_witness:
  "files tablet_world ''/sys/class/power_supply/ac/type'' = Some (File (''Mains'' @ replicate 1 NEWLINE)) \<and>
   NUL \<notin> set ''Mains'' \<and>
   readPowerSupplyType ''/sys/class/power_supply/ac/type'' tablet_world =
     Inr (ANDROID_POWER_SUPPLY_TYPE_AC,
          tablet_world\<lparr>opens := opens tablet_world @ [''/sys/class/power_supply/ac/type'']\<rparr>) \<and>
   files tablet_world ''/sys/class/power_supply/ac/uevent'' = None \<and>
   map_sum id fst (readPowerSupplyType ''/sys/class/power_supply/ac/uevent'' tablet_world) =
     Inr ANDROID_POWER_SUPPLY_TYPE_UNKNOWN"
  using readPowerSupplyType_exact_match
          [of "''/sys/class/power_supply/ac/type''" tablet_world "''Mains''" 1]
        readPowerSupplyType_exact_match
          [of "''/sys/class/power_supply/ac/uevent''" tablet_world]
  by (simp add: tablet_world_def NEWLINE_def NUL_def)

section \<open>The poll\<close>

text \<open>
  C1, as the code has it: when discovery resolved no presence path, a poll that returns
  leaves \<open>mBatteryPresent\<close> false (the claim says true) and \<open>mBatteryLevel\<close> 100. It
  does so whatever the capacity path and the charge pair are, with the same log of opened
  files; and it opens no file but the voltage, temperature, status, health and technology
  files and the \<^verbatim>\<open>online\<close> and \<^verbatim>\<open>type\<close> files of the chargers.
\<close>

theorem poll_without_presence_path:
  assumes "batteryPresentPath (gPaths g) = []"
    and "android_server_BatteryService_update g w = Inr w'"
  shows "\<not> mBatteryPresent (thiz w') \<and> mBatteryLevel (thiz w') = 100 \<and>
    (\<forall>a b c. android_server_BatteryService_update
        (g\<lparr>gPaths := (gPaths g)\<lparr>batteryCapacityPath := a, batteryChargeNowPath := b,
                                 batteryChargeFullPath := c\<rparr>\<rparr>) w = Inr w') \<and>
    set (opens w') \<subseteq> set (opens w) \<union>
      {batteryVoltagePath (gPaths g), batteryTemperaturePath (gPaths g),
       batteryStatusPath (gPaths g), batteryHealthPath (gPaths g),
       batteryTechnologyPath (gPaths g)} \<union>
      (\<Union>name\<in>set (gChargerNames g).
         {power_supply_file name ''online'', power_supply_file name ''type''})"
proof -
  from update_object [OF assms(2)] obtain cp bp level where
    "read_result w (batteryPresentPath (gPaths g)) 16 = Inr (cp, bp)" and
    "batteryPresentPath (gPaths g) = [] \<longrightarrow> level = 100" and
    "mBatteryPresent (thiz w') = (cp > 0 \<and> byte_at bp 0 \<noteq> CHR ''0'')" and
    "mBatteryLevel (thiz w') = level"
    by (elim exE conjE) simp
  with assms(1) have "\<not> mBatteryPresent (thiz w')" "mBatteryLevel (thiz w') = 100"
    by simp_all
  moreover have "android_server_BatteryService_update
        (g\<lparr>gPaths := (gPaths g)\<lparr>batteryCapacityPath := a, batteryChargeNowPath := b,
                                 batteryChargeFullPath := c\<rparr>\<rparr>) w = Inr w'" for a b c
    unfolding assms(2) [symmetric]
    by (simp add: android_server_BatteryService_update_def setVoltageField_def assms(1)
          cong: if_cong)
  ultimately show ?thesis
    using update_opens_without_present [OF assms] by blast
qed

theorem poll_without_presence_path_counterexample:
  "batteryPresentPath (gPaths (discovered bare_world)) = [] \<and>
   android_server_BatteryService_update (discovered bare_world) bare_world = Inr bare_world_polled \<and>
   \<not> mBatteryPresent (thiz bare_world_polled)"
proof -
  have "batteryPresentPath (gPaths (discovered bare_world)) = []"
    by code_simp
  moreover have "\<not> mBatteryPresent (thiz bare_world_polled)"
    by (simp add: bare_world_polled_def)
  ultimately show ?thesis
    using bare_world_poll by simp
qed

theorem poll_without_presence_path_witness:
  "batteryPresentPath (gPaths (discovered bare_world)) = [] \<and>
   android_server_BatteryService_update (discovered bare_world) bare_world = Inr bare_world_polled \<and>
   \<not> mBatteryPresent (thiz bare_world_polled) \<and> mBatteryLevel (thiz bare_world_polled) = 100 \<and>
   android_server_BatteryService_update
     ((discovered bare_world)
        \<lparr>gPaths := (gPaths (discovered bare_world))
           \<lparr>batteryCapacityPath := [],
            batteryChargeNowPath := ''/sys/class/power_supply/battery/charge_now'',
            batteryChargeFullPath := ''/sys/class/power_supply/battery/charge_full''\<rparr>\<rparr>)
     bare_world = Inr bare_world_polled \<and>
   batteryCapacityPath (gPaths (discovered bare_world)) =
     ''/sys/class/power_supply/battery/capacity'' \<and>
   files bare_world ''/sys/class/power_supply/battery/capacity'' = Some (File ''57\<newline>'') \<and>
   ''/sys/class/power_supply/battery/capacity'' \<notin> set (opens bare_world_polled)"
proof -
  have p: "batteryPresentPath (gPaths (discovered bare_world)) = []"
    by code_simp
  have c: "batteryCapacityPath (gPaths (discovered bare_world)) =
     ''/sys/class/power_supply/battery/capacity''"
    by code_simp
  have f: "files bare_world ''/sys/class/power_supply/battery/capacity'' = Some (File ''57\<newline>'')"
    "''/sys/class/power_supply/battery/capacity'' \<notin> set (opens bare_world_polled)"
    by (simp_all add: bare_world_def bare_world_polled_def)
  from poll_without_presence_path [OF p bare_world_poll] p c f bare_world_poll show ?thesis
    by blast
qed

text \<open>
  C5: in a poll that returns, \<open>mAcOnline\<close> is true when no charger was discovered; with
  at least one charger it is true exactly when some charger's \<^verbatim>\<open>online\<close> file reads as
  true and its \<^verbatim>\<open>type\<close> file classifies as AC. A directory that cannot be opened, or
  lists nothing but \<open>.\<close> and \<open>..\<close>, leaves the globals as they were: no charger.
\<close>

theorem acOnline_forced_iff_no_charger:
  assumes "android_server_BatteryService_update g w = Inr w'"
  shows "(gChargerNames g = [] \<longrightarrow> mAcOnline (thiz w')) \<and>
    (gChargerNames g \<noteq> [] \<longrightarrow>
       mAcOnline (thiz w') =
         (\<exists>name\<in>set (gChargerNames g).
            supply_online w name \<and> supply_type w name = ANDROID_POWER_SUPPLY_TYPE_AC)) \<and>
    (\<forall>w0 names. entries w0 = None \<or> (entries w0 = Some names \<and> set names \<subseteq> {''.'', ''..''}) \<longrightarrow>
       register_android_server_BatteryService (initial_globals k) w0 =
         Inr (initial_globals k, w0) \<and>
       gChargerNames (initial_globals k) = [])"
proof -
  from update_object [OF assms] have
    "mAcOnline (thiz w') = (gChargerNames g = [] \<or>
         (\<exists>name\<in>set (gChargerNames g).
            supply_online w name \<and> supply_type w name = ANDROID_POWER_SUPPLY_TYPE_AC))"
    by (elim exE conjE) simp
  then have "gChargerNames g = [] \<longrightarrow> mAcOnline (thiz w')"
    and "gChargerNames g \<noteq> [] \<longrightarrow>
       mAcOnline (thiz w') =
         (\<exists>name\<in>set (gChargerNames g).
            supply_online w name \<and> supply_type w name = ANDROID_POWER_SUPPLY_TYPE_AC)"
    by simp_all
  moreover have "register_android_server_BatteryService (initial_globals k) w0 =
         Inr (initial_globals k, w0) \<and> gChargerNames (initial_globals k) = []"
    if "entries w0 = None \<or> (entries w0 = Some names \<and> set names \<subseteq> {''.'', ''..''})"
    for w0 names
    using that
    by (auto simp: register_android_server_BatteryService_def register_loop_dots initial_globals_def)
  ultimately show ?thesis by blast
qed

theorem acOnline_forced_iff_no_charger_witness:
  "android_server_BatteryService_update (discovered desktop_world) desktop_world =
     Inr desktop_world_polled \<and>
   gChargerNames (discovered desktop_world) = [] \<and> mAcOnline (thiz desktop_world_polled) \<and>
   android_server_BatteryService_update (discovered unplugged_tablet_world) unplugged_tablet_world =
     Inr unplugged_tablet_world_polled \<and>
   gChargerNames (discovered unplugged_tablet_world) = [''ac'', ''usb''] \<and>
   \<not> supply_online unplugged_tablet_world ''ac'' \<and>
   \<not> supply_online unplugged_tablet_world ''usb'' \<and>
   \<not> mAcOnline (thiz unplugged_tablet_world_polled) \<and>
   android_server_BatteryService_update (discovered tablet_world) tablet_world =
     Inr tablet_world_polled \<and>
   gChargerNames (discovered tablet_world) = [''ac'', ''usb''] \<and>
   supply_online tablet_world ''ac'' \<and>
   supply_type tablet_world ''ac'' = ANDROID_POWER_SUPPLY_TYPE_AC \<and>
   mAcOnline (thiz tablet_world_polled) \<and>
   entries desktop_world = Some [''.'', ''..''] \<and>
   register_android_server_BatteryService (initial_globals android_constants) desktop_world =
     Inr (initial_globals android_constants, desktop_world)"
proof -
  note d = acOnline_forced_iff_no_charger [OF desktop_world_poll, of android_constants]
  note u = acOnline_forced_iff_no_charger [OF unplugged_tablet_world_poll, of android_constants]
  note t = acOnline_forced_iff_no_charger [OF tablet_world_poll, of android_constants]
  have c: "gChargerNames (discovered desktop_world) = []"
    "gChargerNames (discovered unplugged_tablet_world) = [''ac'', ''usb'']"
    "gChargerNames (discovered tablet_world) = [''ac'', ''usb'']"
    by code_simp+
  have o: "\<not> supply_online unplugged_tablet_world ''ac''"
    "\<not> supply_online unplugged_tablet_world ''usb''"
    "supply_online tablet_world ''ac''"
    "supply_type tablet_world ''ac'' = ANDROID_POWER_SUPPLY_TYPE_AC"
    by code_simp+
  have e: "entries desktop_world = Some [''.'', ''..'']"
    by (simp add: desktop_world_def)
  from d c(1) have 1: "mAcOnline (thiz desktop_world_polled)"
    by simp
  from u c(2) o(1,2) have 2: "\<not> mAcOnline (thiz unplugged_tablet_world_polled)"
    by simp
  from t c(3) o(3,4) have 3: "mAcOnline (thiz tablet_world_polled)"
    by simp
  from d e have 4: "register_android_server_BatteryService (initial_globals android_constants)
      desktop_world = Inr (initial_globals android_constants, desktop_world)"
    by simp
  from 1 2 3 4 c o e desktop_world_poll unplugged_tablet_world_poll tablet_world_poll
  show ?thesis by simp
qed

text \<open>
  C10: in a poll that returns, a health or technology read that fails (an absent path is
  one) leaves the field as it was; the status field is Unknown when its read fails and
  the classified string otherwise; the voltage and temperature fields are 0 when their
  reads fail and the parsed number (the voltage divided by the divisor) otherwise.
\<close>

theorem poll_unwritten_and_written_fields:
  assumes "android_server_BatteryService_update g w = Inr w'"
  shows "read_fails w [] 128 \<and>
    (read_fails w (batteryHealthPath (gPaths g)) 128 \<longrightarrow>
       mBatteryHealth (thiz w') = mBatteryHealth (thiz w)) \<and>
    (read_fails w (batteryTechnologyPath (gPaths g)) 128 \<longrightarrow>
       mBatteryTechnology (thiz w') = mBatteryTechnology (thiz w)) \<and>
    (read_fails w (batteryStatusPath (gPaths g)) 128 \<longrightarrow>
       mBatteryStatus (thiz w') = statusUnknown (gConstants g)) \<and>
    (read_fails w (batteryVoltagePath (gPaths g)) 128 \<longrightarrow> mBatteryVoltage (thiz w') = 0) \<and>
    (read_fails w (batteryTemperaturePath (gPaths g)) 128 \<longrightarrow> mBatteryTemperature (thiz w') = 0) \<and>
    (\<forall>count buf. read_result w (batteryStatusPath (gPaths g)) 128 = Inr (count, buf) \<and> count > 0 \<longrightarrow>
       mBatteryStatus (thiz w') = getBatteryStatus (gConstants g) (cstr buf)) \<and>
    (\<forall>count buf. read_result w (batteryVoltagePath (gPaths g)) 128 = Inr (count, buf) \<and> count > 0 \<longrightarrow>
       and_then (atoi (cstr buf)) (\<lambda>value. int_div value (gVoltageDivisor g)) =
         Inr (mBatteryVoltage (thiz w'))) \<and>
    (\<forall>count buf. read_result w (batteryTemperaturePath (gPaths g)) 128 = Inr (count, buf) \<and> count > 0 \<longrightarrow>
       atoi (cstr buf) = Inr (mBatteryTemperature (thiz w')))"
proof -
  from update_object [OF assms]
  obtain cv bv voltage ct bt temperature cs bs ch bh cn bn where
    rv: "read_result w (batteryVoltagePath (gPaths g)) 128 = Inr (cv, bv)" and
    vv: "if cv > 0
         then and_then (atoi (cstr bv)) (\<lambda>value. int_div value (gVoltageDivisor g)) = Inr voltage
         else voltage = 0" and
    rt: "read_result w (batteryTemperaturePath (gPaths g)) 128 = Inr (ct, bt)" and
    tv: "if ct > 0 then atoi (cstr bt) = Inr temperature else temperature = 0" and
    rs: "read_result w (batteryStatusPath (gPaths g)) 128 = Inr (cs, bs)" and
    rh: "read_result w (batteryHealthPath (gPaths g)) 128 = Inr (ch, bh)" and
    rn: "read_result w (batteryTechnologyPath (gPaths g)) 128 = Inr (cn, bn)" and
    st: "mBatteryStatus (thiz w') =
           (if cs > 0 then getBatteryStatus (gConstants g) (cstr bs)
            else statusUnknown (gConstants g))" and
    he: "mBatteryHealth (thiz w') =
           (if ch > 0 then getBatteryHealth (gConstants g) (cstr bh)
            else mBatteryHealth (thiz w))" and
    te: "mBatteryTechnology (thiz w') =
           (if cn > 0 then Some (cstr bn) else mBatteryTechnology (thiz w))" and
    vo: "mBatteryVoltage (thiz w') = voltage" and
    tm: "mBatteryTemperature (thiz w') = temperature"
    by (elim exE conjE) simp
  have "read_fails w (batteryHealthPath (gPaths g)) 128 \<longrightarrow>
       mBatteryHealth (thiz w') = mBatteryHealth (thiz w)"
    using rh he by (simp add: read_fails_def)
  moreover have "read_fails w (batteryTechnologyPath (gPaths g)) 128 \<longrightarrow>
       mBatteryTechnology (thiz w') = mBatteryTechnology (thiz w)"
    using rn te by (simp add: read_fails_def)
  moreover have "read_fails w (batteryStatusPath (gPaths g)) 128 \<longrightarrow>
       mBatteryStatus (thiz w') = statusUnknown (gConstants g)"
    using rs st by (simp add: read_fails_def)
  moreover have "read_fails w (batteryVoltagePath (gPaths g)) 128 \<longrightarrow> mBatteryVoltage (thiz w') = 0"
    using rv vv vo by (simp add: read_fails_def)
  moreover have "read_fails w (batteryTemperaturePath (gPaths g)) 128 \<longrightarrow>
       mBatteryTemperature (thiz w') = 0"
    using rt tv tm by (simp add: read_fails_def)
  moreover have "\<forall>count buf. read_result w (batteryStatusPath (gPaths g)) 128 = Inr (count, buf) \<and>
       count > 0 \<longrightarrow> mBatteryStatus (thiz w') = getBatteryStatus (gConstants g) (cstr buf)"
    using rs st by simp
  moreover have "\<forall>count buf. read_result w (batteryVoltagePath (gPaths g)) 128 = Inr (count, buf) \<and>
       count > 0 \<longrightarrow>
       and_then (atoi (cstr buf)) (\<lambda>value. int_div value (gVoltageDivisor g)) =
         Inr (mBatteryVoltage (thiz w'))"
    using rv vv vo by auto
  moreover have "\<forall>count buf. read_result w (batteryTemperaturePath (gPaths g)) 128 = Inr (count, buf) \<and>
       count > 0 \<longrightarrow> atoi (cstr buf) = Inr (mBatteryTemperature (thiz w'))"
    using rt tv tm by auto
  ultimately show ?thesis
    using read_fails_empty by blast
qed


theorem poll_unwritten_and_written_fields_witness:
  "android_server_BatteryService_update (discovered bare_world) bare_world = Inr bare_world_polled \<and>
   read_fails bare_world (batteryHealthPath (gPaths (discovered bare_world))) 128 \<and>
   read_fails bare_world (batteryTechnologyPath (gPaths (discovered bare_world))) 128 \<and>
   read_fails bare_world (batteryStatusPath (gPaths (discovered bare_world))) 128 \<and>
   read_fails bare_world (batteryVoltagePath (gPaths (discovered bare_world))) 128 \<and>
   read_fails bare_world (batteryTemperaturePath (gPaths (discovered bare_world))) 128 \<and>
   mBatteryHealth (thiz bare_world_polled) = mBatteryHealth (thiz bare_world) \<and>
   mBatteryTechnology (thiz bare_world_polled) = mBatteryTechnology (thiz bare_world) \<and>
   mBatteryStatus (thiz bare_world_polled) = statusUnknown (gConstants (discovered bare_world)) \<and>
   mBatteryVoltage (thiz bare_world_polled) = 0 \<and>
   mBatteryTemperature (thiz bare_world_polled) = 0 \<and>
   android_server_BatteryService_update (discovered tablet_world) tablet_world =
     Inr tablet_world_polled \<and>
   read_result tablet_world (batteryStatusPath (gPaths (discovered tablet_world))) 128 =
     Inr (8, ''Charging'') \<and>
   mBatteryStatus (thiz tablet_world_polled) =
     getBatteryStatus (gConstants (discovered tablet_world)) (cstr ''Charging'') \<and>
   read_result tablet_world (batteryVoltagePath (gPaths (discovered tablet_world))) 128 =
     Inr (7, ''3700000'') \<and>
   and_then (atoi (cstr ''3700000''))
     (\<lambda>value. int_div value (gVoltageDivisor (discovered tablet_world))) =
     Inr (mBatteryVoltage (thiz tablet_world_polled)) \<and>
   read_result tablet_world (batteryTemperaturePath (gPaths (discovered tablet_world))) 128 =
     Inr (3, ''300'') \<and>
   atoi (cstr ''300'') = Inr (mBatteryTemperature (thiz tablet_world_polled))"
proof -
  note bare = poll_unwritten_and_written_fields [OF bare_world_poll]
  note tablet = poll_unwritten_and_written_fields [OF tablet_world_poll]
  have h: "read_fails bare_world (batteryHealthPath (gPaths (discovered bare_world))) 128"
    "read_fails bare_world (batteryTechnologyPath (gPaths (discovered bare_world))) 128"
    "read_fails bare_world (batteryStatusPath (gPaths (discovered bare_world))) 128"
    "read_fails bare_world (batteryVoltagePath (gPaths (discovered bare_world))) 128"
    "read_fails bare_world (batteryTemperaturePath (gPaths (discovered bare_world))) 128"
    by code_simp+
  have r: "read_result tablet_world (batteryStatusPath (gPaths (discovered tablet_world))) 128 =
             Inr (8, ''Charging'')"
    "read_result tablet_world (batteryVoltagePath (gPaths (discovered tablet_world))) 128 =
             Inr (7, ''3700000'')"
    "read_result tablet_world (batteryTemperaturePath (gPaths (discovered tablet_world))) 128 =
             Inr (3, ''300'')"
    by code_simp+
  from bare h tablet r bare_world_poll tablet_world_poll show ?thesis
    by simp
qed

section \<open>The charge level\<close>

text \<open>
  C4: the division by the parsed \<^verbatim>\<open>charge_full\<close> has no guard. When both reads succeed,
  the product \<open>now * 100\<close> fits and \<^verbatim>\<open>charge_full\<close> parses to 0, \<^verbatim>\<open>setChargeLevel\<close> divides by
  zero.
\<close>

theorem setChargeLevel_divides_by_zero:
  assumes "readFromFile (batteryChargeNowPath (gPaths g)) 128 w = Inr ((count1, buf1), w1)"
    and "count1 > 0"
    and "readFromFile (batteryChargeFullPath (gPaths g)) 128 w1 = Inr ((count2, buf2), w2)"
    and "count2 > 0"
    and "atoi (cstr buf1) = Inr now" and "in_int (now * 100)"
    and "atoi (cstr buf2) = Inr 0"
  shows "setChargeLevel g fieldID w = Inl DivisionByZero"
  using assms by (simp add: setChargeLevel_def int_mul_def int_div_def)

theorem setChargeLevel_divides_by_zero_witness:
  "readFromFile (batteryChargeNowPath (gPaths (discovered legacy_world))) 128 legacy_world_zero_full =
     Inr ((2, ''50''),
          legacy_world_zero_full\<lparr>opens := [''/sys/class/power_supply/battery/charge_now'']\<rparr>) \<and>
   readFromFile (batteryChargeFullPath (gPaths (discovered legacy_world))) 128
     (legacy_world_zero_full\<lparr>opens := [''/sys/class/power_supply/battery/charge_now'']\<rparr>) =
     Inr ((1, ''0''),
          legacy_world_zero_full\<lparr>opens := [''/sys/class/power_supply/battery/charge_now'',
                                             ''/sys/class/power_supply/battery/charge_full'']\<rparr>) \<and>
   atoi (cstr ''50'') = Inr 50 \<and> in_int (50 * 100) \<and> atoi (cstr ''0'') = Inr 0 \<and>
   setChargeLevel (discovered legacy_world) BatteryLevelID legacy_world_zero_full =
     Inl DivisionByZero \<and>
   android_server_BatteryService_update (discovered legacy_world) legacy_world_zero_full =
     Inl DivisionByZero"
proof -
  have p: "batteryChargeNowPath (gPaths (discovered legacy_world)) =
             ''/sys/class/power_supply/battery/charge_now''"
    "batteryChargeFullPath (gPaths (discovered legacy_world)) =
             ''/sys/class/power_supply/battery/charge_full''"
    by code_simp+
  have r1: "readFromFile ''/sys/class/power_supply/battery/charge_now'' 128 legacy_world_zero_full =
     Inr ((2, ''50''),
          legacy_world_zero_full\<lparr>opens := [''/sys/class/power_supply/battery/charge_now'']\<rparr>)"
    using readFromFile_content [of "''/sys/class/power_supply/battery/charge_now''"
        legacy_world_zero_full "''50''" 1 128]
    by (simp add: legacy_world_zero_full_def legacy_world_def NEWLINE_def)
  have r2: "readFromFile ''/sys/class/power_supply/battery/charge_full'' 128
     (legacy_world_zero_full\<lparr>opens := [''/sys/class/power_supply/battery/charge_now'']\<rparr>) =
     Inr ((1, ''0''),
          legacy_world_zero_full\<lparr>opens := [''/sys/class/power_supply/battery/charge_now'',
                                             ''/sys/class/power_supply/battery/charge_full'']\<rparr>)"
    using readFromFile_content [of "''/sys/class/power_supply/battery/charge_full''"
        "legacy_world_zero_full\<lparr>opens := [''/sys/class/power_supply/battery/charge_now'']\<rparr>"
        "''0''" 1 128]
    by (simp add: legacy_world_zero_full_def legacy_world_def NEWLINE_def)
  have a: "atoi (cstr ''50'') = Inr 50" "in_int (50 * 100)" "atoi (cstr ''0'') = Inr 0"
    by code_simp+
  have u: "android_server_BatteryService_update (discovered legacy_world) legacy_world_zero_full =
     Inl DivisionByZero"
    by (rule poll_fault) code_simp
  from setChargeLevel_divides_by_zero
         [of "discovered legacy_world" legacy_world_zero_full 2 "''50''" _ 1 "''0''" _ 50
            BatteryLevelID]
       r1 r2 a
  have "setChargeLevel (discovered legacy_world) BatteryLevelID legacy_world_zero_full =
     Inl DivisionByZero"
    by (simp add: p)
  with r1 r2 a u show ?thesis
    by (simp add: p)
qed

text \<open>
  C3, where the code leaves the claim: a battery that reports 30000000 of 60000000
  microwatt-hours is at 50 percent, but \<open>30000000 * 100\<close> does not fit in an \<^verbatim>\<open>int\<close>.
\<close>

theorem laptop_poll_overflows:
  "batteryChargeNowPath (gPaths (discovered laptop_world)) =
     ''/sys/class/power_supply/BAT0/energy_now'' \<and>
   batteryChargeFullPath (gPaths (discovered laptop_world)) =
     ''/sys/class/power_supply/BAT0/energy_full'' \<and>
   read_result laptop_world ''/sys/class/power_supply/BAT0/energy_now'' 128 =
     Inr (8, ''30000000'') \<and>
   read_result laptop_world ''/sys/class/power_supply/BAT0/energy_full'' 128 =
     Inr (8, ''60000000'') \<and>
   android_server_BatteryService_update (discovered laptop_world) laptop_world =
     Inl SignedOverflow"
proof -
  have "android_server_BatteryService_update (discovered laptop_world) laptop_world =
     Inl SignedOverflow"
    by (rule poll_fault) code_simp
  moreover have "batteryChargeNowPath (gPaths (discovered laptop_world)) =
     ''/sys/class/power_supply/BAT0/energy_now''"
    "batteryChargeFullPath (gPaths (discovered laptop_world)) =
     ''/sys/class/power_supply/BAT0/energy_full''"
    "read_result laptop_world ''/sys/class/power_supply/BAT0/energy_now'' 128 =
     Inr (8, ''30000000'')"
    "read_result laptop_world ''/sys/class/power_supply/BAT0/energy_full'' 128 =
     Inr (8, ''60000000'')"
    by code_simp+
  ultimately show ?thesis by simp
qed

section \<open>Discovery\<close>





text \<open>
  The divisor starts at 1. For a directory whose \<^verbatim>\<open>type\<close> file says Battery: a readable
  \<^verbatim>\<open>voltage_now\<close> is recorded as the voltage path and sets the divisor to 1000; otherwise
  a readable \<^verbatim>\<open>batt_vol\<close> is recorded and the divisor stays as it was. The voltage read
  of a poll divides the parsed number by the divisor, truncating towards zero. With one
  battery directory \<^verbatim>\<open>voltage_now\<close> holding 3700000 and \<^verbatim>\<open>batt_vol\<close> holding 3700 both
  poll as 3700.
\<close>

lemma voltage_path_and_divisor:
  assumes "NUL \<notin> set name" and "name \<noteq> ''.''" and "name \<noteq> ''..''"
    and "readPowerSupplyType (power_supply_file name ''type'') w =
           Inr (ANDROID_POWER_SUPPLY_TYPE_BATTERY, w1)"
  shows "gVoltageDivisor (initial_globals k) = 1 \<and>
    register_entry name (g, w) = Inr (register_battery name w1 g, w1) \<and>
    batteryVoltagePath (gPaths (register_battery name w1 g)) =
     (if access w (power_supply_file name ''voltage_now'')
        then power_supply_file name ''voltage_now''
      else if access w (power_supply_file name ''batt_vol'')
        then power_supply_file name ''batt_vol''
      else batteryVoltagePath (gPaths g)) \<and>
    gVoltageDivisor (register_battery name w1 g) =
     (if access w (power_supply_file name ''voltage_now'') then 1000 else gVoltageDivisor g) \<and>
    (\<forall>gp path f wp count buf wp1 v.
       readFromFile path 128 wp = Inr ((count, buf), wp1) \<and> count > 0 \<and>
       atoi (cstr buf) = Inr v \<and> gVoltageDivisor gp > 0 \<longrightarrow>
       setVoltageField gp path f wp =
         Inr (wp1\<lparr>thiz := SetIntField f (sgn v * (\<bar>v\<bar> div gVoltageDivisor gp)) (thiz wp1)\<rparr>))"
  using register_entry_battery(1) [OF assms, of g] register_battery_voltage [of name w1 g]
    setVoltageField_divides
  by (simp add: access_files [OF register_entry_battery(2) [OF assms]] initial_globals_def)

lemma voltage_path_and_divisor_examples:
  "readPowerSupplyType (power_supply_file ''battery'' ''type'') legacy_world =
     Inr (ANDROID_POWER_SUPPLY_TYPE_BATTERY,
          legacy_world\<lparr>opens := [''/sys/class/power_supply/battery/type'']\<rparr>) \<and>
   \<not> access legacy_world (power_supply_file ''battery'' ''voltage_now'') \<and>
   access legacy_world (power_supply_file ''battery'' ''batt_vol'') \<and>
   batteryVoltagePath (gPaths (register_battery ''battery''
       (legacy_world\<lparr>opens := [''/sys/class/power_supply/battery/type'']\<rparr>)
       (initial_globals android_constants))) = ''/sys/class/power_supply/battery/batt_vol'' \<and>
   gVoltageDivisor (register_battery ''battery''
       (legacy_world\<lparr>opens := [''/sys/class/power_supply/battery/type'']\<rparr>)
       (initial_globals android_constants)) = 1 \<and>
   readFromFile ''/sys/class/power_supply/battery/batt_vol'' 128 legacy_world =
     Inr ((4, ''3700''), legacy_world\<lparr>opens := [''/sys/class/power_supply/battery/batt_vol'']\<rparr>) \<and>
   atoi (cstr ''3700'') = Inr 3700 \<and>
   setVoltageField (initial_globals android_constants)
       ''/sys/class/power_supply/battery/batt_vol'' BatteryVoltageID legacy_world =
     Inr (legacy_world\<lparr>opens := [''/sys/class/power_supply/battery/batt_vol''],
                       thiz := earlier_object\<lparr>mBatteryVoltage := 3700\<rparr>\<rparr>) \<and>
   readPowerSupplyType (power_supply_file ''battery'' ''type'') tablet_world =
     Inr (ANDROID_POWER_SUPPLY_TYPE_BATTERY,
          tablet_world\<lparr>opens := [''/sys/class/power_supply/battery/type'']\<rparr>) \<and>
   access tablet_world (power_supply_file ''battery'' ''voltage_now'') \<and>
   batteryVoltagePath (gPaths (register_battery ''battery''
       (tablet_world\<lparr>opens := [''/sys/class/power_supply/battery/type'']\<rparr>)
       (initial_globals android_constants))) = ''/sys/class/power_supply/battery/voltage_now'' \<and>
   gVoltageDivisor (register_battery ''battery''
       (tablet_world\<lparr>opens := [''/sys/class/power_supply/battery/type'']\<rparr>)
       (initial_globals android_constants)) = 1000 \<and>
   readFromFile ''/sys/class/power_supply/battery/voltage_now'' 128 tablet_world =
     Inr ((7, ''3700000''),
          tablet_world\<lparr>opens := [''/sys/class/power_supply/battery/voltage_now'']\<rparr>) \<and>
   atoi (cstr ''3700000'') = Inr 3700000 \<and>
   setVoltageField (discovered tablet_world)
       ''/sys/class/power_supply/battery/voltage_now'' BatteryVoltageID tablet_world =
     Inr (tablet_world\<lparr>opens := [''/sys/class/power_supply/battery/voltage_now''],
                       thiz := earlier_object\<lparr>mBatteryVoltage := 3700\<rparr>\<rparr>)"
proof -
  let ?k = android_constants
  have n: "NUL \<notin> set ''battery''" "''battery'' \<noteq> ''.''" "''battery'' \<noteq> ''..''"
    by (simp_all add: NUL_def)
  have p: "power_supply_file ''battery'' ''batt_vol'' = ''/sys/class/power_supply/battery/batt_vol''"
    "power_supply_file ''battery'' ''voltage_now'' = ''/sys/class/power_supply/battery/voltage_now''"
    by (simp_all add: power_supply_file_def POWER_SUPPLY_PATH_def)
  \<comment> \<open>the older phone\<close>
  have lt: "readPowerSupplyType (power_supply_file ''battery'' ''type'') legacy_world =
     Inr (ANDROID_POWER_SUPPLY_TYPE_BATTERY,
          legacy_world\<lparr>opens := [''/sys/class/power_supply/battery/type'']\<rparr>)"
    using readPowerSupplyType_plain [of "power_supply_file ''battery'' ''type''"
        legacy_world "''Battery''" 1]
    by (simp add: legacy_world_def power_supply_file_def POWER_SUPPLY_PATH_def
          NEWLINE_def NUL_def)
  have la: "\<not> access legacy_world (power_supply_file ''battery'' ''voltage_now'')"
    "access legacy_world (power_supply_file ''battery'' ''batt_vol'')"
    by code_simp+
  have lr: "readFromFile ''/sys/class/power_supply/battery/batt_vol'' 128 legacy_world =
     Inr ((4, ''3700''), legacy_world\<lparr>opens := [''/sys/class/power_supply/battery/batt_vol'']\<rparr>)"
    using readFromFile_content [of "''/sys/class/power_supply/battery/batt_vol''"
        legacy_world "''3700''" 1 128]
    by (simp add: legacy_world_def NEWLINE_def)
  have lv: "atoi (cstr ''3700'') = Inr 3700"
    by code_simp
  have ld: "gVoltageDivisor (initial_globals ?k) > 0"
    by (simp add: initial_globals_def)
  note legacy = voltage_path_and_divisor [OF n lt, of ?k "initial_globals ?k"]
  from legacy la have l1: "batteryVoltagePath (gPaths (register_battery ''battery''
       (legacy_world\<lparr>opens := [''/sys/class/power_supply/battery/type'']\<rparr>)
       (initial_globals ?k))) = ''/sys/class/power_supply/battery/batt_vol''"
    and l2: "gVoltageDivisor (register_battery ''battery''
       (legacy_world\<lparr>opens := [''/sys/class/power_supply/battery/type'']\<rparr>)
       (initial_globals ?k)) = 1"
    by (simp_all add: p)
  have lo: "thiz legacy_world = earlier_object"
    by (simp add: legacy_world_def)
  have "setVoltageField (initial_globals ?k)
       ''/sys/class/power_supply/battery/batt_vol'' BatteryVoltageID legacy_world =
     Inr (legacy_world\<lparr>opens := [''/sys/class/power_supply/battery/batt_vol'']\<rparr>
            \<lparr>thiz := SetIntField BatteryVoltageID
                       (sgn 3700 * (\<bar>3700\<bar> div gVoltageDivisor (initial_globals ?k)))
                       (thiz (legacy_world\<lparr>opens := [''/sys/class/power_supply/battery/batt_vol'']\<rparr>))\<rparr>)"
    by (rule legacy [THEN conjunct2, THEN conjunct2, THEN conjunct2, THEN conjunct2, rule_format,
          where count = 4 and buf = "''3700''"])
       (simp add: lr lv ld)
  then have l3: "setVoltageField (initial_globals ?k)
       ''/sys/class/power_supply/battery/batt_vol'' BatteryVoltageID legacy_world =
     Inr (legacy_world\<lparr>opens := [''/sys/class/power_supply/battery/batt_vol''],
                       thiz := earlier_object\<lparr>mBatteryVoltage := 3700\<rparr>\<rparr>)"
    by (simp add: lo initial_globals_def)
  \<comment> \<open>the tablet\<close>
  have tt: "readPowerSupplyType (power_supply_file ''battery'' ''type'') tablet_world =
     Inr (ANDROID_POWER_SUPPLY_TYPE_BATTERY,
          tablet_world\<lparr>opens := [''/sys/class/power_supply/battery/type'']\<rparr>)"
    using readPowerSupplyType_plain [of "power_supply_file ''battery'' ''type''"
        tablet_world "''Battery''" 1]
    by (simp add: tablet_world_def power_supply_file_def POWER_SUPPLY_PATH_def
          NEWLINE_def NUL_def)
  have ta: "access tablet_world (power_supply_file ''battery'' ''voltage_now'')"
    by code_simp
  have tr: "readFromFile ''/sys/class/power_supply/battery/voltage_now'' 128 tablet_world =
     Inr ((7, ''3700000''),
          tablet_world\<lparr>opens := [''/sys/class/power_supply/battery/voltage_now'']\<rparr>)"
    using readFromFile_content [of "''/sys/class/power_supply/battery/voltage_now''"
        tablet_world "''3700000''" 1 128]
    by (simp add: tablet_world_def NEWLINE_def)
  have tv: "atoi (cstr ''3700000'') = Inr 3700000"
    by code_simp
  have td: "gVoltageDivisor (discovered tablet_world) = 1000"
    by code_simp
  note tablet = voltage_path_and_divisor [OF n tt, of ?k "initial_globals ?k"]
  from tablet ta have t1: "batteryVoltagePath (gPaths (register_battery ''battery''
       (tablet_world\<lparr>opens := [''/sys/class/power_supply/battery/type'']\<rparr>)
       (initial_globals ?k))) = ''/sys/class/power_supply/battery/voltage_now''"
    and t2: "gVoltageDivisor (register_battery ''battery''
       (tablet_world\<lparr>opens := [''/sys/class/power_supply/battery/type'']\<rparr>)
       (initial_globals ?k)) = 1000"
    by (simp_all add: p)
  have to: "thiz tablet_world = earlier_object"
    by (simp add: tablet_world_def)
  have "setVoltageField (discovered tablet_world)
       ''/sys/class/power_supply/battery/voltage_now'' BatteryVoltageID tablet_world =
     Inr (tablet_world\<lparr>opens := [''/sys/class/power_supply/battery/voltage_now'']\<rparr>
            \<lparr>thiz := SetIntField BatteryVoltageID
                       (sgn 3700000 * (\<bar>3700000\<bar> div gVoltageDivisor (discovered tablet_world)))
                       (thiz (tablet_world\<lparr>opens := [''/sys/class/power_supply/battery/voltage_now'']\<rparr>))\<rparr>)"
    by (rule tablet [THEN conjunct2, THEN conjunct2, THEN conjunct2, THEN conjunct2, rule_format,
          where count = 7 and buf = "''3700000''"])
       (simp add: tr tv td)
  then have t3: "setVoltageField (discovered tablet_world)
       ''/sys/class/power_supply/battery/voltage_now'' BatteryVoltageID tablet_world =
     Inr (tablet_world\<lparr>opens := [''/sys/class/power_supply/battery/voltage_now''],
                       thiz := earlier_object\<lparr>mBatteryVoltage := 3700\<rparr>\<rparr>)"
    by (simp add: to td)
  from lt la l1 l2 lr lv l3 tt ta t1 t2 tr tv t3 show ?thesis
    by simp
qed

text \<open>
  C6, where the code leaves the claim: the divisor is one global that the scan only ever
  raises. Of two battery directories the first has \<^verbatim>\<open>voltage_now\<close> and the second only
  \<^verbatim>\<open>batt_vol\<close>: discovery records the \<^verbatim>\<open>batt_vol\<close> path and keeps the divisor 1000, and
  the poll turns the 3700 millivolts of the file into 3.
\<close>

theorem two_battery_divisor_is_stale:
  "batteryVoltagePath (gPaths (discovered two_battery_world)) =
     ''/sys/class/power_supply/BAT1/batt_vol'' \<and>
   gVoltageDivisor (discovered two_battery_world) = 1000 \<and>
   files two_battery_world ''/sys/class/power_supply/BAT1/batt_vol'' = Some (File ''3700\<newline>'') \<and>
   android_server_BatteryService_update (discovered two_battery_world) two_battery_world =
     Inr two_battery_world_polled \<and>
   mBatteryVoltage (thiz two_battery_world_polled) = 3"
proof -
  have "batteryVoltagePath (gPaths (discovered two_battery_world)) =
     ''/sys/class/power_supply/BAT1/batt_vol''"
    "gVoltageDivisor (discovered two_battery_world) = 1000"
    by code_simp+
  moreover have "files two_battery_world ''/sys/class/power_supply/BAT1/batt_vol'' =
      Some (File ''3700\<newline>'')"
    "mBatteryVoltage (thiz two_battery_world_polled) = 3"
    by (simp_all add: two_battery_world_def two_battery_world_polled_def)
  ultimately show ?thesis
    using two_battery_world_poll by simp
qed

end
